theory Spec2Isabelle
  imports Complex_Main
begin

section \<open>kubernoisy: a shallow embedding of the churn generator\<close>

text \<open>
  The repository holds two versions of the program: \<^verbatim>\<open>src/main.go\<close> (integer
  \<^verbatim>\<open>ops\<close>, a headless service plus explicit endpoints) and
  \<^verbatim>\<open>src/unnamed/part_001\<close> (floating-point \<^verbatim>\<open>ops\<close>, a pod plus a headless
  service).  Definitions that belong to one version carry the suffix \<open>_main\<close> or
  \<open>_part_001\<close>; code that is the same text in both versions is modelled once.
\<close>

subsection \<open>Name generator\<close>

definition letterBytes :: string where
  "letterBytes = ''0123456789abcdefghijklmnopqrstuvwxyz''"

text \<open>
  The global source of \<^verbatim>\<open>math/rand\<close> is a stream of raw draws; \<^verbatim>\<open>rand.Intn(n)\<close>
  consumes one draw and returns a value in \<open>[0, n)\<close>.
\<close>

type_synonym rand_source = "nat \<Rightarrow> nat"

definition Intn :: "nat \<Rightarrow> rand_source \<Rightarrow> nat \<times> rand_source" where
  "Intn n src = (src 0 mod n, \<lambda>i. src (Suc i))"

text \<open>Indexing a Go string: out of range is a run-time panic (\<open>None\<close>).\<close>

definition byte_at :: "string \<Rightarrow> nat \<Rightarrow> char option" where
  "byte_at s j = (if j < length s then Some (s ! j) else None)"

text \<open>
  The body of \<^verbatim>\<open>for i := range b { b[i] = letterBytes[rand.Intn(len(letterBytes))] }\<close>,
  by the number of bytes still to fill.
\<close>

fun fill_bytes :: "nat \<Rightarrow> rand_source \<Rightarrow> (string \<times> rand_source) option" where
  "fill_bytes 0 src = Some ([], src)"
| "fill_bytes (Suc k) src =
     (case Intn (length letterBytes) src of (j, src') \<Rightarrow>
        (case byte_at letterBytes j of
           None \<Rightarrow> None
         | Some c \<Rightarrow>
             (case fill_bytes k src' of
                None \<Rightarrow> None
              | Some (s, src'') \<Rightarrow> Some (c # s, src''))))"

text \<open>\<^verbatim>\<open>make([]byte, n)\<close> panics for a negative length.\<close>

definition RandStringBytes :: "int \<Rightarrow> rand_source \<Rightarrow> (string \<times> rand_source) option" where
  "RandStringBytes n src = (if n < 0 then None else fill_bytes (nat n) src)"

text \<open>\<^verbatim>\<open>rando := "kubernoisy-" + RandStringBytes(18)\<close>\<close>

definition new_rando :: "rand_source \<Rightarrow> (string \<times> rand_source) option" where
  "new_rando src =
     (case RandStringBytes 18 src of
        None \<Rightarrow> None
      | Some (s, src') \<Rightarrow> Some (''kubernoisy-'' @ s, src'))"

subsection \<open>Durations\<close>

text \<open>
  A \<^verbatim>\<open>time.Duration\<close> is a count of nanoseconds.  Elapsed times stay far below
  \<open>2 ^ 63\<close>, so they are plain integers here; the one multiplication that can leave
  the 64-bit range (the ticker period of \<^verbatim>\<open>part_001\<close>) wraps explicitly.
\<close>

definition Second :: int where
  "Second = 1000000000"

definition wrap64 :: "int \<Rightarrow> int" where
  "wrap64 x = (x + 2 ^ 63) mod 2 ^ 64 - 2 ^ 63"

subsection \<open>Kubernetes objects built by a cycle\<close>

record ObjectMeta =
  Name :: string
  Namespace :: string
  Labels :: "string \<rightharpoonup> string"

record Port =
  port_Name :: string
  port_Port :: int

record ServiceSpec =
  svc_Ports :: "Port list"
  ClusterIP :: string
  svc_Type :: string
  Selector :: "string \<rightharpoonup> string"

record Service =
  svc_ObjectMeta :: ObjectMeta
  svc_Spec :: ServiceSpec

record EndpointAddress =
  IP :: string
  Hostname :: string

record EndpointSubset =
  Addresses :: "EndpointAddress list"
  eps_Ports :: "Port list"

record Endpoints =
  eps_ObjectMeta :: ObjectMeta
  Subsets :: "EndpointSubset list"

record Container =
  ctr_Name :: string
  Image :: string
  ctr_Ports :: "Port list"

record PodSpec =
  pod_Hostname :: string
  Containers :: "Container list"

record Pod =
  pod_ObjectMeta :: ObjectMeta
  pod_Spec :: PodSpec

text \<open>\<^verbatim>\<open>v1.ClusterIPNone\<close> and \<^verbatim>\<open>v1.ServiceTypeClusterIP\<close>\<close>

definition ClusterIPNone :: string where
  "ClusterIPNone = ''None''"

definition ServiceTypeClusterIP :: string where
  "ServiceTypeClusterIP = ''ClusterIP''"

text \<open>The struct literals of \<^verbatim>\<open>src/main.go\<close>: \<^verbatim>\<open>svc\<close> and \<^verbatim>\<open>eps\<close>.\<close>

definition svc_main :: "string \<Rightarrow> string \<Rightarrow> Service" where
  "svc_main rando ns =
     \<lparr>svc_ObjectMeta = \<lparr>Name = rando, Namespace = ns, Labels = Map.empty\<rparr>,
      svc_Spec = \<lparr>svc_Ports = [\<lparr>port_Name = ''http'', port_Port = 80\<rparr>],
                  ClusterIP = ClusterIPNone,
                  svc_Type = ServiceTypeClusterIP,
                  Selector = Map.empty\<rparr>\<rparr>"

definition eps_main :: "string \<Rightarrow> string \<Rightarrow> string \<Rightarrow> Endpoints" where
  "eps_main rando ns ip =
     \<lparr>eps_ObjectMeta = \<lparr>Name = rando, Namespace = ns, Labels = Map.empty\<rparr>,
      Subsets = [\<lparr>Addresses = [\<lparr>IP = ip, Hostname = ''test''\<rparr>],
                  eps_Ports = [\<lparr>port_Name = ''http'', port_Port = 80\<rparr>]\<rparr>]\<rparr>"

text \<open>The struct literals of \<^verbatim>\<open>src/unnamed/part_001\<close>: \<^verbatim>\<open>pod\<close> and \<^verbatim>\<open>svc\<close>.\<close>

definition pod_part_001 :: "string \<Rightarrow> string \<Rightarrow> Pod" where
  "pod_part_001 rando ns =
     \<lparr>pod_ObjectMeta = \<lparr>Name = rando, Namespace = ns,
                         Labels = [''app'' \<mapsto> rando, ''kubernoisy'' \<mapsto> ''noise'']\<rparr>,
      pod_Spec = \<lparr>pod_Hostname = ''pod'',
                  Containers = [\<lparr>ctr_Name = rando,
                                 Image = ''gcr.io/google_containers/pause:3.2'',
                                 ctr_Ports = [\<lparr>port_Name = ''kubernoisy'', port_Port = 1234\<rparr>]\<rparr>]\<rparr>\<rparr>"

definition svc_part_001 :: "string \<Rightarrow> string \<Rightarrow> Service" where
  "svc_part_001 rando ns =
     \<lparr>svc_ObjectMeta = \<lparr>Name = rando, Namespace = ns, Labels = [''kubernoisy'' \<mapsto> ''noise'']\<rparr>,
      svc_Spec = \<lparr>svc_Ports = [\<lparr>port_Name = ''kubernoisy'', port_Port = 1234\<rparr>],
                  ClusterIP = ClusterIPNone,
                  svc_Type = ServiceTypeClusterIP,
                  Selector = [''app'' \<mapsto> rando]\<rparr>\<rparr>"

subsection \<open>The external collaborators and the process state\<close>

text \<open>
  A call on the Kubernetes client: the first argument is the namespace of the typed
  client (\<^verbatim>\<open>Services(namespace)\<close>), the second the object created or the name deleted.
  The API is a function from the call to the error it returns (\<open>None\<close> is \<^verbatim>\<open>nil\<close>).
\<close>

datatype api_call =
    Services_Create string Service
  | Endpoints_Create string Endpoints
  | Pods_Create string Pod
  | Services_Delete string string
  | Pods_Delete string string

type_synonym kube_api = "api_call \<Rightarrow> string option"

text \<open>A log line is kept as the format string and its arguments.\<close>

datatype log_arg = Str string | IntArg int | RatArg rat

type_synonym log_line = "string \<times> log_arg list"

text \<open>
  The global variables set by the flags.  \<^verbatim>\<open>ops\<close> is an \<^verbatim>\<open>int\<close> in
  \<^verbatim>\<open>main.go\<close> and a \<^verbatim>\<open>float64\<close> in \<^verbatim>\<open>part_001\<close>.
\<close>

record 'o config =
  ops :: 'o
  timeout :: int
  verbose :: bool
  namespace :: string
  promaddr :: string

text \<open>
  What a cycle changes: the three Prometheus vectors, the log, and (for the statements
  about what was attempted) the list of API calls made.  A histogram is the list of the
  values observed, in nanoseconds (\<^verbatim>\<open>Observe(elapsed.Seconds())\<close>).
\<close>

record world =
  OperationCount :: "string \<times> string \<Rightarrow> nat"
  ValidationFailCount :: "string \<Rightarrow> nat"
  ValidationDuration :: "string \<Rightarrow> int list"
  log_output :: "log_line list"
  api_calls :: "api_call list"

definition OperationCount_Inc :: "string \<Rightarrow> string \<Rightarrow> world \<Rightarrow> world" where
  "OperationCount_Inc obj act w =
     w\<lparr>OperationCount := (OperationCount w)((obj, act) := Suc (OperationCount w (obj, act)))\<rparr>"

definition ValidationFailCount_Inc :: "string \<Rightarrow> world \<Rightarrow> world" where
  "ValidationFailCount_Inc act w =
     w\<lparr>ValidationFailCount := (ValidationFailCount w)(act := Suc (ValidationFailCount w act))\<rparr>"

definition ValidationDuration_Observe :: "string \<Rightarrow> int \<Rightarrow> world \<Rightarrow> world" where
  "ValidationDuration_Observe act d w =
     w\<lparr>ValidationDuration := (ValidationDuration w)(act := ValidationDuration w act @ [d])\<rparr>"

definition log_Printf :: "string \<Rightarrow> log_arg list \<Rightarrow> world \<Rightarrow> world" where
  "log_Printf fmt v w = w\<lparr>log_output := log_output w @ [(fmt, v)]\<rparr>"

definition debugf :: "bool \<Rightarrow> string \<Rightarrow> log_arg list \<Rightarrow> world \<Rightarrow> world" where
  "debugf vb fmt v w = (if \<not> vb then w else log_Printf fmt v w)"

definition call_api :: "kube_api \<Rightarrow> api_call \<Rightarrow> world \<Rightarrow> string option \<times> world" where
  "call_api kapi c w = (kapi c, w\<lparr>api_calls := api_calls w @ [c]\<rparr>)"

subsection \<open>Convergence verifier\<close>

text \<open>
  \<^verbatim>\<open>net.LookupIP\<close> returns the addresses (here as \<^verbatim>\<open>IP.String()\<close> prints them)
  and an error.  The resolver is a function of the name and of the number of the poll;
  the poll numbered \<open>i\<close> takes \<open>lookup_time i\<close> nanoseconds, and the sleep after it
  lasts one second plus \<open>oversleep i\<close> nanoseconds (\<^verbatim>\<open>time.Sleep\<close> sleeps at least
  the duration asked for).  Every other statement takes no time.
\<close>

type_synonym lookup_result = "string list \<times> string option"

record dns =
  LookupIP :: "string \<Rightarrow> nat \<Rightarrow> lookup_result"
  lookup_time :: "nat \<Rightarrow> nat"
  oversleep :: "nat \<Rightarrow> nat"

text \<open>\<^verbatim>\<open>strings.HasPrefix\<close> and \<^verbatim>\<open>strings.Contains\<close>\<close>

fun HasPrefix :: "string \<Rightarrow> string \<Rightarrow> bool" where
  "HasPrefix s [] = True"
| "HasPrefix [] (c # p) = False"
| "HasPrefix (a # s) (c # p) = (a = c \<and> HasPrefix s p)"

fun Contains :: "string \<Rightarrow> string \<Rightarrow> bool" where
  "Contains [] substr = (substr = [])"
| "Contains (a # s) substr = (HasPrefix (a # s) substr \<or> Contains s substr)"

text \<open>
  The conditions that end the three loops:
  \<^verbatim>\<open>err == nil && len(ips) > 0 && ips[0].String() == ip\<close> (\<^verbatim>\<open>main.go\<close>),
  \<^verbatim>\<open>err == nil && len(ips) > 0\<close> (\<^verbatim>\<open>part_001\<close>) and
  \<^verbatim>\<open>err != nil && strings.Contains(err.Error(), "no such host")\<close> (both).
\<close>

fun added_main :: "string \<Rightarrow> lookup_result \<Rightarrow> bool" where
  "added_main ip (ips, err) = (err = None \<and> length ips > 0 \<and> ips ! 0 = ip)"

fun added_part_001 :: "lookup_result \<Rightarrow> bool" where
  "added_part_001 (ips, err) = (err = None \<and> length ips > 0)"

fun deleted :: "lookup_result \<Rightarrow> bool" where
  "deleted (ips, None) = False"
| "deleted (ips, Some e) = Contains e ''no such host''"

text \<open>
  What a loop leaves behind: the variables \<^verbatim>\<open>verified\<close> and \<^verbatim>\<open>elapsed\<close>, and for
  the statements about timing the time since \<^verbatim>\<open>start\<close> at which the loop was left
  and the number of lookups made.
\<close>

record outcome =
  verified :: bool
  elapsed :: int
  returned_at :: int
  polls :: nat

text \<open>
  \<^verbatim>\<open>for start := time.Now(); time.Since(start) < timeout; { ... }\<close> with the condition
  of the \<^verbatim>\<open>if\<close> as a parameter.  \<open>now\<close> is \<^verbatim>\<open>time.Since(start)\<close>, \<open>el\<close> the
  variable \<^verbatim>\<open>elapsed\<close>, \<open>i\<close> the number of the next poll.
\<close>

function verify_loop ::
  "(lookup_result \<Rightarrow> bool) \<Rightarrow> dns \<Rightarrow> string \<Rightarrow> int \<Rightarrow> int \<Rightarrow> int \<Rightarrow> nat \<Rightarrow> outcome" where
  "verify_loop cond d rando tmo now el i =
     (if now < tmo then
        (if cond (LookupIP d rando i) then
           \<lparr>verified = True, elapsed = el,
            returned_at = now + int (lookup_time d i), polls = Suc i\<rparr>
         else
           verify_loop cond d rando tmo
             (now + int (lookup_time d i) + Second + int (oversleep d i))
             (now + int (lookup_time d i) + Second + int (oversleep d i))
             (Suc i))
      else \<lparr>verified = False, elapsed = el, returned_at = now, polls = i\<rparr>)"
  by pat_completeness auto
termination
  by (relation "measure (\<lambda>(cond, d, rando, tmo, now, el, i). nat (tmo - now))")
     (auto simp: Second_def)

declare verify_loop.simps [simp del]

text \<open>\<^verbatim>\<open>verified := false; var elapsed time.Duration\<close> (or \<^verbatim>\<open>elapsed = 0\<close>), then the loop.\<close>

definition verify :: "(lookup_result \<Rightarrow> bool) \<Rightarrow> dns \<Rightarrow> string \<Rightarrow> int \<Rightarrow> outcome" where
  "verify cond d rando tmo = verify_loop cond d rando tmo 0 0 0"

text \<open>\<^verbatim>\<open>if !verified { ValidationFailCount...Inc() } else { ValidationDuration...Observe(...) }\<close>\<close>

definition record_validation :: "string \<Rightarrow> outcome \<Rightarrow> world \<Rightarrow> world" where
  "record_validation act r w =
     (if \<not> verified r then ValidationFailCount_Inc act w
      else ValidationDuration_Observe act (elapsed r) w)"

text \<open>
  The time since \<^verbatim>\<open>start\<close> at which poll \<open>k\<close> begins when no earlier poll ended the
  loop: the end of the sleep before it.
\<close>

fun poll_start :: "dns \<Rightarrow> nat \<Rightarrow> int" where
  "poll_start d 0 = 0"
| "poll_start d (Suc k) =
     poll_start d k + int (lookup_time d k) + Second + int (oversleep d k)"

subsection \<open>Churn cycle of \<^verbatim>\<open>src/main.go\<close>\<close>

definition create_service_main :: "'o config \<Rightarrow> kube_api \<Rightarrow> string \<Rightarrow> world \<Rightarrow> world" where
  "create_service_main cfg kapi rando w =
     (case call_api kapi (Services_Create (namespace cfg) (svc_main rando (namespace cfg))) w of
        (err, w') \<Rightarrow>
          OperationCount_Inc ''service'' ''add''
            (case err of
               Some e \<Rightarrow> log_Printf ''could not create service %v.%v: %v''
                           [Str rando, Str (namespace cfg), Str e] w'
             | None \<Rightarrow> w'))"

definition create_endpoints_main ::
  "'o config \<Rightarrow> kube_api \<Rightarrow> string \<Rightarrow> string \<Rightarrow> world \<Rightarrow> world" where
  "create_endpoints_main cfg kapi rando ip w =
     (case call_api kapi (Endpoints_Create (namespace cfg) (eps_main rando (namespace cfg) ip)) w of
        (err, w') \<Rightarrow>
          OperationCount_Inc ''endpoints'' ''add''
            (case err of
               Some e \<Rightarrow> debugf (verbose cfg) ''could not create endpoints %v.%v: %v''
                           [Str rando, Str (namespace cfg), Str e] w'
             | None \<Rightarrow> w'))"

definition delete_service_main :: "'o config \<Rightarrow> kube_api \<Rightarrow> string \<Rightarrow> world \<Rightarrow> world" where
  "delete_service_main cfg kapi rando w =
     (case call_api kapi (Services_Delete (namespace cfg) rando) w of
        (err, w') \<Rightarrow>
          OperationCount_Inc ''service'' ''delete''
            (case err of
               Some e \<Rightarrow> debugf (verbose cfg) ''could not delete service %v.%v: %v''
                           [Str rando, Str (namespace cfg), Str e] w'
             | None \<Rightarrow> w'))"

text \<open>
  The body of the goroutine, after \<^verbatim>\<open>rando\<close> is drawn.  \<open>d_add\<close> and \<open>d_del\<close> are the
  resolver as seen by the first and by the second loop.
\<close>

definition cycle_main ::
  "'o config \<Rightarrow> kube_api \<Rightarrow> dns \<Rightarrow> dns \<Rightarrow> string \<Rightarrow> world \<Rightarrow> world" where
  "cycle_main cfg kapi d_add d_del rando w =
     record_validation ''delete'' (verify deleted d_del rando (timeout cfg))
       (delete_service_main cfg kapi rando
          (record_validation ''add'' (verify (added_main ''1.2.3.4'') d_add rando (timeout cfg))
             (create_endpoints_main cfg kapi rando ''1.2.3.4''
                (create_service_main cfg kapi rando w))))"

subsection \<open>Churn cycle of \<^verbatim>\<open>src/unnamed/part_001\<close>\<close>

definition create_pod_part_001 :: "'o config \<Rightarrow> kube_api \<Rightarrow> string \<Rightarrow> world \<Rightarrow> world" where
  "create_pod_part_001 cfg kapi rando w =
     (case call_api kapi (Pods_Create (namespace cfg) (pod_part_001 rando (namespace cfg))) w of
        (err, w') \<Rightarrow>
          (case err of
             Some e \<Rightarrow> log_Printf ''could not create pod %v.%v: %v''
                         [Str rando, Str (namespace cfg), Str e] w'
           | None \<Rightarrow> OperationCount_Inc ''pod'' ''add'' w'))"

definition create_service_part_001 :: "'o config \<Rightarrow> kube_api \<Rightarrow> string \<Rightarrow> world \<Rightarrow> world" where
  "create_service_part_001 cfg kapi rando w =
     (case call_api kapi (Services_Create (namespace cfg) (svc_part_001 rando (namespace cfg))) w of
        (err, w') \<Rightarrow>
          (case err of
             Some e \<Rightarrow> log_Printf ''could not create service %v.%v: %v''
                         [Str rando, Str (namespace cfg), Str e] w'
           | None \<Rightarrow> OperationCount_Inc ''service'' ''add'' w'))"

definition delete_pod_part_001 :: "'o config \<Rightarrow> kube_api \<Rightarrow> string \<Rightarrow> world \<Rightarrow> world" where
  "delete_pod_part_001 cfg kapi rando w =
     (case call_api kapi (Pods_Delete (namespace cfg) rando) w of
        (err, w') \<Rightarrow>
          (case err of
             Some e \<Rightarrow> debugf (verbose cfg) ''could not delete pod pod.%v.%v: %v''
                         [Str rando, Str (namespace cfg), Str e] w'
           | None \<Rightarrow> OperationCount_Inc ''pod'' ''delete'' w'))"

definition delete_service_part_001 :: "'o config \<Rightarrow> kube_api \<Rightarrow> string \<Rightarrow> world \<Rightarrow> world" where
  "delete_service_part_001 cfg kapi rando w =
     (case call_api kapi (Services_Delete (namespace cfg) rando) w of
        (err, w') \<Rightarrow>
          (case err of
             Some e \<Rightarrow> debugf (verbose cfg) ''could not delete service %v.%v: %v''
                         [Str rando, Str (namespace cfg), Str e] w'
           | None \<Rightarrow> OperationCount_Inc ''service'' ''delete'' w'))"

definition cycle_part_001 ::
  "'o config \<Rightarrow> kube_api \<Rightarrow> dns \<Rightarrow> dns \<Rightarrow> string \<Rightarrow> world \<Rightarrow> world" where
  "cycle_part_001 cfg kapi d_add d_del rando w =
     record_validation ''delete'' (verify deleted d_del rando (timeout cfg))
       (delete_service_part_001 cfg kapi rando
          (delete_pod_part_001 cfg kapi rando
             (record_validation ''add'' (verify added_part_001 d_add rando (timeout cfg))
                (create_service_part_001 cfg kapi rando
                   (create_pod_part_001 cfg kapi rando w)))))"

subsection \<open>Startup and the rate scheduler\<close>

text \<open>
  What \<^verbatim>\<open>main\<close> does, as the list of its actions.  \<^verbatim>\<open>log.Fatal\<close> prints and exits
  with status 1, so it ends the list; so do a panic and \<^verbatim>\<open>os.Exit\<close>.  The loop reads
  the events that arrive (a tick of the ticker, or a signal) one by one.
\<close>

datatype event = Tick | Signal

datatype action =
    Log_Fatal "log_arg list"
  | Signal_Notify
  | GetAPIConn
  | Http_Handle string
  | Go_ListenAndServe string
  | NewTicker int
  | Log_Printf string "log_arg list"
  | Go_cycle
  | Os_Exit int
  | Panic string

fun main_loop :: "event list \<Rightarrow> action list" where
  "main_loop [] = []"
| "main_loop (Tick # evs) = Go_cycle # main_loop evs"
| "main_loop (Signal # evs) = [Log_Printf ''Got signal, exiting'' [], Os_Exit 0]"

text \<open>\<^verbatim>\<open>time.NewTicker(d)\<close> panics unless \<open>d\<close> is positive.\<close>

definition start_ticker :: "int \<Rightarrow> log_arg \<Rightarrow> event list \<Rightarrow> action list" where
  "start_ticker d shown_ops evs =
     (if d \<le> 0 then [Panic ''non-positive interval for NewTicker'']
      else NewTicker d #
           Log_Printf ''Performing %v operations per second'' [shown_ops] # main_loop evs)"

text \<open>
  \<^verbatim>\<open>main.go\<close>: \<^verbatim>\<open>1 * time.Second / time.Duration(ops)\<close>.  Integer division in Go
  truncates towards zero and panics on a zero divisor (\<open>None\<close>).
\<close>

definition go_quo :: "int \<Rightarrow> int \<Rightarrow> int option" where
  "go_quo a b = (if b = 0 then None else Some (sgn a * sgn b * (\<bar>a\<bar> div \<bar>b\<bar>)))"

definition ticker_period_main :: "int \<Rightarrow> int option" where
  "ticker_period_main n = go_quo (1 * Second) n"

text \<open>
  \<^verbatim>\<open>part_001\<close>: \<^verbatim>\<open>time.Duration(1/ops) * time.Second\<close>.  A finite
  \<^verbatim>\<open>float64\<close> is the rational it stands for.  The division of two \<^verbatim>\<open>float64\<close>
  rounds the exact quotient to the nearest \<^verbatim>\<open>float64\<close>, a tie going to the even
  significand: 53 bits of significand, from the exponent of the quotient and not below
  \<open>- 1022\<close>; a result that is not finite (an overflow, or a division by zero) is
  \<open>None\<close>.
\<close>

definition pow2 :: "int \<Rightarrow> rat" where
  "pow2 e = (if 0 \<le> e then 2 ^ nat e else 1 / 2 ^ nat (- e))"

definition round_half_even :: "rat \<Rightarrow> int" where
  "round_half_even x =
     (if x - of_int \<lfloor>x\<rfloor> < 1 / 2 then \<lfloor>x\<rfloor>
      else if 1 / 2 < x - of_int \<lfloor>x\<rfloor> then \<lfloor>x\<rfloor> + 1
      else if even \<lfloor>x\<rfloor> then \<lfloor>x\<rfloor> else \<lfloor>x\<rfloor> + 1)"

text \<open>The exponent \<open>e\<close> with \<open>2 ^ e \<le> q < 2 ^ (e + 1)\<close>, for \<open>1 \<le> q\<close>.\<close>

function exponent_up :: "rat \<Rightarrow> int" where
  "exponent_up q = (if q < 2 then 0 else exponent_up (q / 2) + 1)"
  by pat_completeness auto
termination
proof (relation "measure (\<lambda>q. nat \<lfloor>q\<rfloor>)")
  show "wf (measure (\<lambda>q::rat. nat \<lfloor>q\<rfloor>))" by simp
next
  fix q :: rat
  assume "\<not> q < 2"
  then have q: "2 \<le> q" by simp
  then have "q / 2 \<le> q - 1" by simp
  then have "\<lfloor>q / 2\<rfloor> \<le> \<lfloor>q - 1\<rfloor>" by (rule floor_mono)
  moreover have "2 \<le> \<lfloor>q\<rfloor>" using q by (simp add: le_floor_iff)
  ultimately show "(q / 2, q) \<in> measure (\<lambda>q. nat \<lfloor>q\<rfloor>)" by simp
qed

declare exponent_up.simps [simp del]

text \<open>The same for \<open>0 < q < 1\<close>, going down by at most \<open>n\<close>.\<close>

function exponent_down :: "int \<Rightarrow> rat \<Rightarrow> int" where
  "exponent_down n q = (if n \<le> 0 \<or> 1 \<le> q then 0 else exponent_down (n - 1) (2 * q) - 1)"
  by pat_completeness auto
termination
  by (relation "measure (\<lambda>(n, q). nat n)") auto

declare exponent_down.simps [simp del]

definition float64_exponent :: "rat \<Rightarrow> int" where
  "float64_exponent q = (if 1 \<le> q then exponent_up q else exponent_down 1022 q)"

definition float64_round :: "rat \<Rightarrow> rat option" where
  "float64_round q =
     (if q = 0 then Some 0
      else if pow2 1024 \<le>
                of_int (round_half_even (\<bar>q\<bar> / pow2 (float64_exponent \<bar>q\<bar> - 52))) *
                pow2 (float64_exponent \<bar>q\<bar> - 52)
      then None
      else Some (sgn q *
                 (of_int (round_half_even (\<bar>q\<bar> / pow2 (float64_exponent \<bar>q\<bar> - 52))) *
                  pow2 (float64_exponent \<bar>q\<bar> - 52))))"

definition float64_div :: "rat \<Rightarrow> rat \<Rightarrow> rat option" where
  "float64_div a b = (if b = 0 then None else float64_round (a / b))"

text \<open>
  The conversion of a \<^verbatim>\<open>float64\<close> to \<^verbatim>\<open>time.Duration\<close> drops the fraction.  For a
  value that is not finite or whose integer part is outside the 64-bit range, the
  language leaves the result to the implementation; on amd64, the platform the
  repository builds for, the conversion instruction then gives \<open>- 2 ^ 63\<close>.  The
  product with \<^verbatim>\<open>time.Second\<close> is a 64-bit integer and wraps.
\<close>

definition float_to_int :: "rat option \<Rightarrow> int" where
  "float_to_int v =
     (case v of
        None \<Rightarrow> - (2 ^ 63)
      | Some x \<Rightarrow>
          (if - (2 ^ 63) \<le> (if 0 \<le> x then \<lfloor>x\<rfloor> else \<lceil>x\<rceil>) \<and>
              (if 0 \<le> x then \<lfloor>x\<rfloor> else \<lceil>x\<rceil>) < 2 ^ 63
           then (if 0 \<le> x then \<lfloor>x\<rfloor> else \<lceil>x\<rceil>)
           else - (2 ^ 63)))"

definition ticker_period_part_001 :: "rat \<Rightarrow> int" where
  "ticker_period_part_001 x = wrap64 (float_to_int (float64_div 1 x) * Second)"

text \<open>
  \<^verbatim>\<open>main\<close> after \<^verbatim>\<open>flag.Parse()\<close>.  \<open>conn\<close> is the error of \<^verbatim>\<open>getAPIConn()\<close>,
  \<open>evs\<close> the events that reach the \<^verbatim>\<open>select\<close>.
\<close>

definition main_main :: "int config \<Rightarrow> string option \<Rightarrow> event list \<Rightarrow> action list" where
  "main_main cfg conn evs =
     (if ops cfg \<le> 0 then [Log_Fatal [Str ''ops cannot be <= 0'']]
      else Signal_Notify # GetAPIConn #
        (case conn of
           Some e \<Rightarrow> [Log_Fatal [Str e]]
         | None \<Rightarrow>
             Http_Handle ''/metrics'' # Go_ListenAndServe (promaddr cfg) #
               (case ticker_period_main (ops cfg) of
                  None \<Rightarrow> [Panic ''integer divide by zero'']
                | Some d \<Rightarrow> start_ticker d (IntArg (ops cfg)) evs)))"

definition main_part_001 :: "rat config \<Rightarrow> string option \<Rightarrow> event list \<Rightarrow> action list" where
  "main_part_001 cfg conn evs =
     (if ops cfg \<le> 0 then [Log_Fatal [Str ''ops cannot be <= 0'']]
      else Signal_Notify # GetAPIConn #
        (case conn of
           Some e \<Rightarrow> [Log_Fatal [Str e]]
         | None \<Rightarrow>
             Http_Handle ''/metrics'' # Go_ListenAndServe (promaddr cfg) #
               start_ticker (ticker_period_part_001 (ops cfg)) (RatArg (ops cfg)) evs))"

subsection \<open>Defaults and the state at startup\<close>

text \<open>The default values of the flags, and the metrics and the log of a fresh process.\<close>

definition default_config_main :: "int config" where
  "default_config_main =
     \<lparr>ops = 1, timeout = 30 * Second, verbose = False,
      namespace = ''load-test'', promaddr = '':9696''\<rparr>"

definition default_config_part_001 :: "rat config" where
  "default_config_part_001 =
     \<lparr>ops = 1, timeout = 30 * (60 * Second), verbose = False,
      namespace = ''load-test'', promaddr = '':9696''\<rparr>"

definition initial_world :: world where
  "initial_world =
     \<lparr>OperationCount = (\<lambda>l. 0), ValidationFailCount = (\<lambda>a. 0),
      ValidationDuration = (\<lambda>a. []), log_output = [], api_calls = []\<rparr>"

text \<open>
  A resolver for the examples: the first \<open>n\<close> lookups fail with the error \<open>e\<close>, the
  later ones return \<open>r\<close>; each lookup takes \<open>t\<close> nanoseconds and sleeps are exact.
\<close>

definition stub_dns :: "nat \<Rightarrow> string \<Rightarrow> lookup_result \<Rightarrow> nat \<Rightarrow> dns" where
  "stub_dns n e r t =
     \<lparr>LookupIP = (\<lambda>name i. if i < n then ([], Some e) else r),
      lookup_time = (\<lambda>i. t), oversleep = (\<lambda>i. 0)\<rparr>"

text \<open>An API server that refuses every call, and one that accepts every call.\<close>

definition failing_api :: kube_api where
  "failing_api = (\<lambda>c. Some ''the server is currently unable to handle the request'')"

definition working_api :: kube_api where
  "working_api = (\<lambda>c. None)"

text \<open>
  The labels \<^verbatim>\<open>{object, action}\<close> under which the source counts each kind of call
  (\<^verbatim>\<open>OperationCount.WithLabelValues(...)\<close> after the call).
\<close>

fun call_label :: "api_call \<Rightarrow> string \<times> string" where
  "call_label (Services_Create ns x) = (''service'', ''add'')"
| "call_label (Endpoints_Create ns x) = (''endpoints'', ''add'')"
| "call_label (Pods_Create ns x) = (''pod'', ''add'')"
| "call_label (Services_Delete ns n) = (''service'', ''delete'')"
| "call_label (Pods_Delete ns n) = (''pod'', ''delete'')"

text \<open>The calls a cycle added to the list of calls of the world it started from.\<close>

definition new_calls :: "world \<Rightarrow> world \<Rightarrow> api_call list" where
  "new_calls w w' = drop (length (api_calls w)) (api_calls w')"

definition new_log :: "world \<Rightarrow> world \<Rightarrow> log_line list" where
  "new_log w w' = drop (length (log_output w)) (log_output w')"

section \<open>Properties\<close>

subsection \<open>Name generator\<close>

lemma Intn_letterBytes_lt: "fst (Intn (length letterBytes) src) < length letterBytes"
  by (simp add: Intn_def letterBytes_def)

lemma fill_bytes_total:
  "\<exists>s src'. fill_bytes k src = Some (s, src') \<and> length s = k \<and> set s \<subseteq> set letterBytes"
proof (induction k arbitrary: src)
  case 0
  show ?case by simp
next
  case (Suc k)
  obtain j src1 where I: "Intn (length letterBytes) src = (j, src1)"
    by (cases "Intn (length letterBytes) src")
  have j: "j < length letterBytes"
    using Intn_letterBytes_lt [of src] I by simp
  from Suc.IH [of src1] obtain s src2 where
    R: "fill_bytes k src1 = Some (s, src2)" "length s = k" "set s \<subseteq> set letterBytes"
    by blast
  have "fill_bytes (Suc k) src = Some (letterBytes ! j # s, src2)"
    using I j R(1) by (simp add: byte_at_def)
  moreover have "letterBytes ! j \<in> set letterBytes"
    using j by (rule nth_mem)
  ultimately show ?case
    using R(2,3) by simp
qed

text \<open>
  C9.  For every \<open>n \<ge> 0\<close>, \<^verbatim>\<open>RandStringBytes(n)\<close> returns (it does not panic) a
  string of exactly \<open>n\<close> characters, each one a character of the 36-character
  alphabet \<^verbatim>\<open>0123456789abcdefghijklmnopqrstuvwxyz\<close>; the identity of a cycle is
  therefore \<^verbatim>\<open>kubernoisy-\<close> followed by 18 characters of that alphabet, 29 characters
  in all.
\<close>

theorem RandStringBytes_alphabet:
  "0 \<le> n \<Longrightarrow>
     (\<exists>s src'. RandStringBytes n src = Some (s, src') \<and> int (length s) = n \<and>
        set s \<subseteq> set ''0123456789abcdefghijklmnopqrstuvwxyz'') \<and>
     length letterBytes = 36 \<and>
     (\<exists>s src'. new_rando src = Some (''kubernoisy-'' @ s, src') \<and> length s = 18 \<and>
        set s \<subseteq> set ''0123456789abcdefghijklmnopqrstuvwxyz'' \<and>
        length (''kubernoisy-'' @ s) = 29)"
proof -
  assume n: "0 \<le> n"
  have A: "set letterBytes = set ''0123456789abcdefghijklmnopqrstuvwxyz''"
    by (simp add: letterBytes_def)
  obtain s src1 where
    S: "fill_bytes (nat n) src = Some (s, src1)" "length s = nat n" "set s \<subseteq> set letterBytes"
    using fill_bytes_total [of "nat n" src] by blast
  have P1: "\<exists>s src'. RandStringBytes n src = Some (s, src') \<and> int (length s) = n \<and>
        set s \<subseteq> set ''0123456789abcdefghijklmnopqrstuvwxyz''"
    using S n A by (auto simp: RandStringBytes_def)
  obtain t src2 where
    T: "fill_bytes 18 src = Some (t, src2)" "length t = 18" "set t \<subseteq> set letterBytes"
    using fill_bytes_total [of 18 src] by blast
  have "new_rando src = Some (''kubernoisy-'' @ t, src2)"
    using T(1) by (simp add: new_rando_def RandStringBytes_def)
  then have P3: "\<exists>s src'. new_rando src = Some (''kubernoisy-'' @ s, src') \<and> length s = 18 \<and>
        set s \<subseteq> set ''0123456789abcdefghijklmnopqrstuvwxyz'' \<and>
        length (''kubernoisy-'' @ s) = 29"
    using T(2,3) A by auto
  have P2: "length letterBytes = 36"
    by (simp add: letterBytes_def)
  show ?thesis using P1 P2 P3 by blast
qed

theorem RandStringBytes_alphabet_witness:
  "(0::int) \<le> 2 \<and>
   RandStringBytes 2 (\<lambda>i. 10 + 27 * i) = Some (''a1'', \<lambda>i. 10 + 27 * Suc (Suc i)) \<and>
   (\<exists>s src'. RandStringBytes 2 (\<lambda>i. 10 + 27 * i) = Some (s, src') \<and> int (length s) = 2 \<and>
      set s \<subseteq> set ''0123456789abcdefghijklmnopqrstuvwxyz'')"
proof -
  have E: "RandStringBytes 2 (\<lambda>i. 10 + 27 * i) = Some (''a1'', \<lambda>i. 10 + 27 * Suc (Suc i))"
    by (simp add: RandStringBytes_def numeral_2_eq_2 Intn_def byte_at_def letterBytes_def)
  show ?thesis
    using E RandStringBytes_alphabet [of 2 "\<lambda>i. 10 + 27 * i"] by simp
qed

subsection \<open>Convergence verifier\<close>

lemma poll_start_mono_Suc: "poll_start d k < poll_start d (Suc k)"
  by (simp add: Second_def)

lemma poll_start_mono: "i \<le> k \<Longrightarrow> poll_start d i \<le> poll_start d k"
proof (induction k)
  case 0
  then show ?case by simp
next
  case (Suc k)
  show ?case
  proof (cases "i = Suc k")
    case True
    then show ?thesis by simp
  next
    case False
    with Suc.prems have "i \<le> k" by simp
    from Suc.IH [OF this] poll_start_mono_Suc [of d k] show ?thesis by linarith
  qed
qed

lemma poll_start_lower: "int k * Second \<le> poll_start d k"
  by (induction k) (simp_all add: algebra_simps)

lemma poll_start_ideal:
  "(\<forall>j<k. lookup_time d j = 0 \<and> oversleep d j = 0) \<Longrightarrow> poll_start d k = int k * Second"
  by (induction k) (simp_all add: algebra_simps)

lemma poll_start_upper:
  "(\<forall>j<k. int (lookup_time d j) + int (oversleep d j) \<le> b) \<Longrightarrow>
   poll_start d k \<le> int k * (Second + b)"
proof (induction k)
  case 0
  show ?case by simp
next
  case (Suc k)
  have "poll_start d k \<le> int k * (Second + b)"
    using Suc by simp
  moreover have "int (lookup_time d k) + int (oversleep d k) \<le> b"
    using Suc.prems by simp
  ultimately show ?case
    by (simp add: algebra_simps)
qed

lemma verify_loop_char:
  "now = poll_start d i \<Longrightarrow> el = poll_start d i \<Longrightarrow>
   \<exists>n\<ge>i. (\<forall>j. i \<le> j \<and> j < n \<longrightarrow> \<not> cond (LookupIP d rando j) \<and> poll_start d j < tmo) \<and>
     (if verified (verify_loop cond d rando tmo now el i)
      then cond (LookupIP d rando n) \<and> poll_start d n < tmo \<and>
           verify_loop cond d rando tmo now el i =
             \<lparr>verified = True, elapsed = poll_start d n,
              returned_at = poll_start d n + int (lookup_time d n), polls = Suc n\<rparr>
      else tmo \<le> poll_start d n \<and>
           verify_loop cond d rando tmo now el i =
             \<lparr>verified = False, elapsed = poll_start d n,
              returned_at = poll_start d n, polls = n\<rparr>)"
proof (induction cond d rando tmo now el i rule: verify_loop.induct)
  case (1 cond d rando tmo now el i)
  show ?case
  proof (cases "now < tmo")
    case False
    then have "verify_loop cond d rando tmo now el i =
        \<lparr>verified = False, elapsed = el, returned_at = now, polls = i\<rparr>"
      by (simp add: verify_loop.simps [of cond d rando tmo now el i])
    with False 1(2,3) show ?thesis
      by (intro exI [of _ i]) auto
  next
    case True
    show ?thesis
    proof (cases "cond (LookupIP d rando i)")
      case c: True
      with True have "verify_loop cond d rando tmo now el i =
          \<lparr>verified = True, elapsed = el,
           returned_at = now + int (lookup_time d i), polls = Suc i\<rparr>"
        by (simp add: verify_loop.simps [of cond d rando tmo now el i])
      with True c 1(2,3) show ?thesis
        by (intro exI [of _ i]) auto
    next
      case c: False
      let ?now' = "now + int (lookup_time d i) + Second + int (oversleep d i)"
      have E: "verify_loop cond d rando tmo now el i =
          verify_loop cond d rando tmo ?now' ?now' (Suc i)"
        using True c by (simp add: verify_loop.simps [of cond d rando tmo now el i])
      have P: "?now' = poll_start d (Suc i)"
        using 1(2) by simp
      from 1(1) [OF True c P P] obtain n where
        n: "Suc i \<le> n"
          "\<forall>j. Suc i \<le> j \<and> j < n \<longrightarrow> \<not> cond (LookupIP d rando j) \<and> poll_start d j < tmo"
          "if verified (verify_loop cond d rando tmo ?now' ?now' (Suc i))
           then cond (LookupIP d rando n) \<and> poll_start d n < tmo \<and>
             verify_loop cond d rando tmo ?now' ?now' (Suc i) =
               \<lparr>verified = True, elapsed = poll_start d n,
                returned_at = poll_start d n + int (lookup_time d n), polls = Suc n\<rparr>
           else tmo \<le> poll_start d n \<and>
             verify_loop cond d rando tmo ?now' ?now' (Suc i) =
               \<lparr>verified = False, elapsed = poll_start d n,
                returned_at = poll_start d n, polls = n\<rparr>"
        by blast
      have A: "\<forall>j. i \<le> j \<and> j < n \<longrightarrow> \<not> cond (LookupIP d rando j) \<and> poll_start d j < tmo"
      proof (intro allI impI)
        fix j assume j: "i \<le> j \<and> j < n"
        show "\<not> cond (LookupIP d rando j) \<and> poll_start d j < tmo"
        proof (cases "j = i")
          case True
          then show ?thesis using c \<open>now < tmo\<close> 1(2) by simp
        next
          case False
          then have "Suc i \<le> j \<and> j < n" using j by simp
          then show ?thesis using n(2) by blast
        qed
      qed
      show ?thesis
        unfolding E using n(1,3) A by (intro exI [of _ n]) simp
    qed
  qed
qed


lemma verify_converges:
  assumes "\<forall>j<k. \<not> cond (LookupIP d rando j)" "cond (LookupIP d rando k)"
    "poll_start d k < tmo"
  shows "verify cond d rando tmo =
           \<lparr>verified = True, elapsed = poll_start d k,
            returned_at = poll_start d k + int (lookup_time d k), polls = Suc k\<rparr>"
proof -
  let ?r = "verify_loop cond d rando tmo 0 0 0"
  from verify_loop_char [of 0 d 0 0 cond rando tmo] obtain n where
    n: "\<forall>j. j < n \<longrightarrow> \<not> cond (LookupIP d rando j) \<and> poll_start d j < tmo"
       "if verified ?r
        then cond (LookupIP d rando n) \<and> poll_start d n < tmo \<and>
             ?r = \<lparr>verified = True, elapsed = poll_start d n,
                   returned_at = poll_start d n + int (lookup_time d n), polls = Suc n\<rparr>
        else tmo \<le> poll_start d n \<and>
             ?r = \<lparr>verified = False, elapsed = poll_start d n,
                   returned_at = poll_start d n, polls = n\<rparr>"
    by auto
  have nk: "n \<le> k"
    using n(1) assms(2) by (meson not_le)
  have v: "verified ?r"
  proof (rule ccontr)
    assume "\<not> verified ?r"
    with n(2) have "tmo \<le> poll_start d n" by simp
    with poll_start_mono [OF nk, of d] assms(3) show False by linarith
  qed
  with n(2) have c: "cond (LookupIP d rando n)" by simp
  have "n = k"
    using nk c assms(1) by (meson le_neq_implies_less)
  with v n(2) show ?thesis by (simp add: verify_def)
qed

lemma verify_times_out:
  assumes "\<forall>j. \<not> cond (LookupIP d rando j)"
  shows "\<exists>n. verify cond d rando tmo =
           \<lparr>verified = False, elapsed = poll_start d n,
            returned_at = poll_start d n, polls = n\<rparr> \<and>
          tmo \<le> poll_start d n \<and> (\<forall>j<n. poll_start d j < tmo)"
proof -
  let ?r = "verify_loop cond d rando tmo 0 0 0"
  from verify_loop_char [of 0 d 0 0 cond rando tmo] obtain n where
    n: "\<forall>j. j < n \<longrightarrow> \<not> cond (LookupIP d rando j) \<and> poll_start d j < tmo"
       "if verified ?r
        then cond (LookupIP d rando n) \<and> poll_start d n < tmo \<and>
             ?r = \<lparr>verified = True, elapsed = poll_start d n,
                   returned_at = poll_start d n + int (lookup_time d n), polls = Suc n\<rparr>
        else tmo \<le> poll_start d n \<and>
             ?r = \<lparr>verified = False, elapsed = poll_start d n,
                   returned_at = poll_start d n, polls = n\<rparr>"
    by auto
  have "\<not> verified ?r"
    using n(2) assms by (auto split: if_splits)
  with n show ?thesis
    by (intro exI [of _ n]) (simp add: verify_def)
qed

lemma verify_verified:
  assumes "verified (verify cond d rando tmo)"
  shows "\<exists>n. verify cond d rando tmo =
           \<lparr>verified = True, elapsed = poll_start d n,
            returned_at = poll_start d n + int (lookup_time d n), polls = Suc n\<rparr> \<and>
          cond (LookupIP d rando n) \<and> poll_start d n < tmo \<and>
          (\<forall>j<n. \<not> cond (LookupIP d rando j))"
proof -
  let ?r = "verify_loop cond d rando tmo 0 0 0"
  from verify_loop_char [of 0 d 0 0 cond rando tmo] obtain n where
    n: "\<forall>j. j < n \<longrightarrow> \<not> cond (LookupIP d rando j) \<and> poll_start d j < tmo"
       "if verified ?r
        then cond (LookupIP d rando n) \<and> poll_start d n < tmo \<and>
             ?r = \<lparr>verified = True, elapsed = poll_start d n,
                   returned_at = poll_start d n + int (lookup_time d n), polls = Suc n\<rparr>
        else tmo \<le> poll_start d n \<and>
             ?r = \<lparr>verified = False, elapsed = poll_start d n,
                   returned_at = poll_start d n, polls = n\<rparr>"
    by auto
  from assms have "verified ?r" by (simp add: verify_def)
  with n show ?thesis
    by (intro exI [of _ n]) (simp add: verify_def)
qed

lemma verify_not_verified:
  assumes "\<not> verified (verify cond d rando tmo)"
  shows "\<exists>n. verify cond d rando tmo =
           \<lparr>verified = False, elapsed = poll_start d n,
            returned_at = poll_start d n, polls = n\<rparr> \<and>
          tmo \<le> poll_start d n \<and>
          (\<forall>j<n. \<not> cond (LookupIP d rando j) \<and> poll_start d j < tmo)"
proof -
  let ?r = "verify_loop cond d rando tmo 0 0 0"
  from verify_loop_char [of 0 d 0 0 cond rando tmo] obtain n where
    n: "\<forall>j. j < n \<longrightarrow> \<not> cond (LookupIP d rando j) \<and> poll_start d j < tmo"
       "if verified ?r
        then cond (LookupIP d rando n) \<and> poll_start d n < tmo \<and>
             ?r = \<lparr>verified = True, elapsed = poll_start d n,
                   returned_at = poll_start d n + int (lookup_time d n), polls = Suc n\<rparr>
        else tmo \<le> poll_start d n \<and>
             ?r = \<lparr>verified = False, elapsed = poll_start d n,
                   returned_at = poll_start d n, polls = n\<rparr>"
    by auto
  from assms have "\<not> verified ?r" by (simp add: verify_def)
  with n show ?thesis
    by (intro exI [of _ n]) (simp add: verify_def)
qed

lemma timeout_overshoot:
  assumes "0 \<le> tmo" "tmo \<le> poll_start d n" "\<forall>j<n. poll_start d j < tmo"
    "\<forall>j. int (lookup_time d j) + int (oversleep d j) \<le> b"
  shows "poll_start d n < tmo + Second + b"
proof (cases n)
  case 0
  have "0 \<le> b"
    using assms(4) [rule_format, of 0] by linarith
  with 0 assms(1) show ?thesis by (simp add: Second_def)
next
  case (Suc m)
  with assms(3) have "poll_start d m < tmo" by simp
  moreover have "int (lookup_time d m) + int (oversleep d m) \<le> b"
    using assms(4) by simp
  ultimately show ?thesis using Suc by simp
qed

text \<open>
  C5.  Presence verification (the first loop of either version).  If poll \<open>k\<close> is the
  first whose lookup satisfies the condition, and it begins before the timeout
  (\<open>poll_start d k < tmo\<close>), the loop ends with \<^verbatim>\<open>verified = true\<close> and with
  \<^verbatim>\<open>elapsed\<close> equal to the time at which that poll began: at least \<open>k\<close> seconds,
  and exactly \<open>k\<close> seconds when lookups are instantaneous and sleeps exact
  (\<open>b = 0\<close>).  If no lookup ever satisfies the condition, the loop ends with
  \<^verbatim>\<open>verified = false\<close>, and for a timeout that is not negative it ends at a time
  in \<open>[tmo, tmo + 1s + b)\<close>, where \<open>b\<close> bounds the time a lookup takes plus the
  oversleep.
\<close>

theorem presence_verification:
  assumes "cond = added_main ''1.2.3.4'' \<or> cond = added_part_001"
  shows
    "((\<forall>j<k. \<not> cond (LookupIP d rando j)) \<and> cond (LookupIP d rando k) \<and>
       poll_start d k < tmo \<longrightarrow>
        verify cond d rando tmo =
          \<lparr>verified = True, elapsed = poll_start d k,
           returned_at = poll_start d k + int (lookup_time d k), polls = Suc k\<rparr> \<and>
        int k * Second \<le> poll_start d k \<and>
        ((\<forall>j<k. int (lookup_time d j) + int (oversleep d j) \<le> b) \<longrightarrow>
           poll_start d k \<le> int k * (Second + b))) \<and>
     ((\<forall>j. \<not> cond (LookupIP d rando j)) \<longrightarrow>
        \<not> verified (verify cond d rando tmo) \<and>
        returned_at (verify cond d rando tmo) = elapsed (verify cond d rando tmo) \<and>
        (0 \<le> tmo \<longrightarrow>
           tmo \<le> elapsed (verify cond d rando tmo) \<and>
           ((\<forall>j. int (lookup_time d j) + int (oversleep d j) \<le> b) \<longrightarrow>
              elapsed (verify cond d rando tmo) < tmo + Second + b)))"
proof (intro conjI impI)
  assume "(\<forall>j<k. \<not> cond (LookupIP d rando j)) \<and> cond (LookupIP d rando k) \<and>
       poll_start d k < tmo"
  then show "verify cond d rando tmo =
          \<lparr>verified = True, elapsed = poll_start d k,
           returned_at = poll_start d k + int (lookup_time d k), polls = Suc k\<rparr>"
    using verify_converges [of k cond d rando tmo] by blast
next
  show "int k * Second \<le> poll_start d k"
    by (rule poll_start_lower)
next
  assume "\<forall>j<k. int (lookup_time d j) + int (oversleep d j) \<le> b"
  then show "poll_start d k \<le> int k * (Second + b)"
    by (rule poll_start_upper)
next
  assume a: "\<forall>j. \<not> cond (LookupIP d rando j)"
  from verify_times_out [OF a, of tmo] show "\<not> verified (verify cond d rando tmo)"
    by auto
next
  assume a: "\<forall>j. \<not> cond (LookupIP d rando j)"
  from verify_times_out [OF a, of tmo]
  show "returned_at (verify cond d rando tmo) = elapsed (verify cond d rando tmo)"
    by auto
next
  assume a: "\<forall>j. \<not> cond (LookupIP d rando j)"
  from verify_times_out [OF a, of tmo]
  show "tmo \<le> elapsed (verify cond d rando tmo)"
    by auto
next
  assume a: "\<forall>j. \<not> cond (LookupIP d rando j)" and t: "0 \<le> tmo"
    and b: "\<forall>j. int (lookup_time d j) + int (oversleep d j) \<le> b"
  from verify_times_out [OF a, of tmo] obtain n where
    n: "verify cond d rando tmo =
          \<lparr>verified = False, elapsed = poll_start d n,
           returned_at = poll_start d n, polls = n\<rparr>"
       "tmo \<le> poll_start d n" "\<forall>j<n. poll_start d j < tmo"
    by blast
  from timeout_overshoot [OF t n(2,3) b] n(1)
  show "elapsed (verify cond d rando tmo) < tmo + Second + b"
    by simp
qed


theorem presence_verification_witness:
  "(added_main ''1.2.3.4'' = added_main ''1.2.3.4'' \<or> added_main ''1.2.3.4'' = added_part_001) \<and>
   \<not> added_main ''1.2.3.4'' ([], Some ''lookup kubernoisy-0: no such host'') \<and>
   added_main ''1.2.3.4'' ([''1.2.3.4''], None) \<and>
   verify (added_main ''1.2.3.4'')
     \<lparr>LookupIP = (\<lambda>name i. if i < 2 then ([], Some ''lookup kubernoisy-0: no such host'')
                             else ([''1.2.3.4''], None)),
      lookup_time = (\<lambda>i. 0), oversleep = (\<lambda>i. 0)\<rparr>
     ''kubernoisy-0'' (30 * Second) =
     \<lparr>verified = True, elapsed = 2 * Second, returned_at = 2 * Second, polls = 3\<rparr> \<and>
   \<not> verified (verify added_part_001
     \<lparr>LookupIP = (\<lambda>name i. ([], Some ''lookup kubernoisy-0: no such host'')),
      lookup_time = (\<lambda>i. 0), oversleep = (\<lambda>i. 0)\<rparr>
     ''kubernoisy-0'' (30 * Second)) \<and>
   30 * Second \<le> elapsed (verify added_part_001
     \<lparr>LookupIP = (\<lambda>name i. ([], Some ''lookup kubernoisy-0: no such host'')),
      lookup_time = (\<lambda>i. 0), oversleep = (\<lambda>i. 0)\<rparr>
     ''kubernoisy-0'' (30 * Second)) \<and>
   elapsed (verify added_part_001
     \<lparr>LookupIP = (\<lambda>name i. ([], Some ''lookup kubernoisy-0: no such host'')),
      lookup_time = (\<lambda>i. 0), oversleep = (\<lambda>i. 0)\<rparr>
     ''kubernoisy-0'' (30 * Second)) < 31 * Second"
  using presence_verification [of "added_main ''1.2.3.4''" "Suc (Suc 0)"
      "\<lparr>LookupIP = (\<lambda>name i. if i < 2 then ([], Some ''lookup kubernoisy-0: no such host'')
                             else ([''1.2.3.4''], None)),
        lookup_time = (\<lambda>i. 0), oversleep = (\<lambda>i. 0)\<rparr>"
      "''kubernoisy-0''" "30 * Second" 0]
    presence_verification [of added_part_001 0
      "\<lparr>LookupIP = (\<lambda>name i. ([], Some ''lookup kubernoisy-0: no such host'')),
        lookup_time = (\<lambda>i. 0), oversleep = (\<lambda>i. 0)\<rparr>"
      "''kubernoisy-0''" "30 * Second" 0]
  by (simp add: Second_def less_Suc_eq)

lemma deleted_iff:
  "deleted r \<longleftrightarrow> (\<exists>e. snd r = Some e \<and> Contains e ''no such host'')"
  by (cases r; cases "snd r") auto

lemma verify_loop_continue:
  "now < tmo \<Longrightarrow> \<not> cond (LookupIP d rando i) \<Longrightarrow>
   verify_loop cond d rando tmo now el i =
   verify_loop cond d rando tmo
     (now + int (lookup_time d i) + Second + int (oversleep d i))
     (now + int (lookup_time d i) + Second + int (oversleep d i)) (Suc i)"
  by (simp add: verify_loop.simps [of cond d rando tmo now el i])

lemma verify_polls_beyond:
  assumes "\<forall>j<k. \<not> cond (LookupIP d rando j)" "poll_start d k < tmo"
  shows "k < polls (verify cond d rando tmo)"
proof (cases "verified (verify cond d rando tmo)")
  case True
  from verify_verified [OF True] obtain n where
    n: "verify cond d rando tmo =
           \<lparr>verified = True, elapsed = poll_start d n,
            returned_at = poll_start d n + int (lookup_time d n), polls = Suc n\<rparr>"
       "cond (LookupIP d rando n)"
    by blast
  from n(2) assms(1) have "k \<le> n" by (meson not_le)
  with n(1) show ?thesis by simp
next
  case False
  from verify_not_verified [OF False] obtain n where
    n: "verify cond d rando tmo =
           \<lparr>verified = False, elapsed = poll_start d n,
            returned_at = poll_start d n, polls = n\<rparr>"
       "tmo \<le> poll_start d n"
    by blast
  have "k < n"
  proof (rule ccontr)
    assume "\<not> k < n"
    then have "n \<le> k" by simp
    from poll_start_mono [OF this, of d] n(2) assms(2) show False by linarith
  qed
  with n(1) show ?thesis by simp
qed

text \<open>
  C6.  Absence verification (the second loop).  A lookup result is not taken for
  convergence exactly when it is a successful resolution or an error whose message does
  not contain \<^verbatim>\<open>no such host\<close>; on such a result, before the timeout, the loop
  neither ends nor fails: it sleeps and goes on with the next poll.  So when the first
  \<open>k\<close> results are all of that kind and poll \<open>k\<close> begins before the timeout, more than
  \<open>k\<close> polls are made.  The loop ends in two ways only: on a poll whose error contains
  \<^verbatim>\<open>no such host\<close>, or when the timeout has elapsed.
\<close>

theorem absence_keeps_polling:
  "(\<not> deleted (ips, err) \<longleftrightarrow>
      err = None \<or> (\<exists>e. err = Some e \<and> \<not> Contains e ''no such host'')) \<and>
   (now < tmo \<and> \<not> deleted (LookupIP d rando i) \<longrightarrow>
      verify_loop deleted d rando tmo now el i =
      verify_loop deleted d rando tmo
        (now + int (lookup_time d i) + Second + int (oversleep d i))
        (now + int (lookup_time d i) + Second + int (oversleep d i)) (Suc i)) \<and>
   ((\<forall>j<k. case snd (LookupIP d rando j) of
              None \<Rightarrow> True | Some e \<Rightarrow> \<not> Contains e ''no such host'') \<and>
    poll_start d k < tmo \<longrightarrow>
      k < polls (verify deleted d rando tmo)) \<and>
   (verified (verify deleted d rando tmo) \<longrightarrow>
      (\<exists>n e. polls (verify deleted d rando tmo) = Suc n \<and>
         snd (LookupIP d rando n) = Some e \<and> Contains e ''no such host'' \<and>
         (\<forall>j<n. \<not> deleted (LookupIP d rando j)))) \<and>
   (\<not> verified (verify deleted d rando tmo) \<longrightarrow>
      tmo \<le> returned_at (verify deleted d rando tmo) \<and>
      (\<forall>j<polls (verify deleted d rando tmo). \<not> deleted (LookupIP d rando j)))"
proof (intro conjI impI)
  show "\<not> deleted (ips, err) \<longleftrightarrow>
      err = None \<or> (\<exists>e. err = Some e \<and> \<not> Contains e ''no such host'')"
    by (cases err) auto
next
  assume "now < tmo \<and> \<not> deleted (LookupIP d rando i)"
  then show "verify_loop deleted d rando tmo now el i =
      verify_loop deleted d rando tmo
        (now + int (lookup_time d i) + Second + int (oversleep d i))
        (now + int (lookup_time d i) + Second + int (oversleep d i)) (Suc i)"
    using verify_loop_continue [of now tmo deleted d rando i el] by blast
next
  assume a: "(\<forall>j<k. case snd (LookupIP d rando j) of
              None \<Rightarrow> True | Some e \<Rightarrow> \<not> Contains e ''no such host'') \<and>
    poll_start d k < tmo"
  have "\<forall>j<k. \<not> deleted (LookupIP d rando j)"
  proof (intro allI impI)
    fix j assume "j < k"
    with a have "case snd (LookupIP d rando j) of
              None \<Rightarrow> True | Some e \<Rightarrow> \<not> Contains e ''no such host''"
      by blast
    then show "\<not> deleted (LookupIP d rando j)"
      by (auto simp: deleted_iff)
  qed
  with a show "k < polls (verify deleted d rando tmo)"
    using verify_polls_beyond [of k deleted d rando tmo] by blast
next
  assume v: "verified (verify deleted d rando tmo)"
  from verify_verified [OF v] obtain n where
    n: "verify deleted d rando tmo =
           \<lparr>verified = True, elapsed = poll_start d n,
            returned_at = poll_start d n + int (lookup_time d n), polls = Suc n\<rparr>"
       "deleted (LookupIP d rando n)" "\<forall>j<n. \<not> deleted (LookupIP d rando j)"
    by blast
  from n(2) obtain e where "snd (LookupIP d rando n) = Some e" "Contains e ''no such host''"
    by (auto simp: deleted_iff)
  with n(1,3) show "\<exists>n e. polls (verify deleted d rando tmo) = Suc n \<and>
         snd (LookupIP d rando n) = Some e \<and> Contains e ''no such host'' \<and>
         (\<forall>j<n. \<not> deleted (LookupIP d rando j))"
    by (intro exI [of _ n] exI [of _ e]) simp
next
  assume v: "\<not> verified (verify deleted d rando tmo)"
  from verify_not_verified [OF v]
  show "tmo \<le> returned_at (verify deleted d rando tmo)"
    by auto
next
  assume v: "\<not> verified (verify deleted d rando tmo)"
  from verify_not_verified [OF v]
  show "\<forall>j<polls (verify deleted d rando tmo). \<not> deleted (LookupIP d rando j)"
    by auto
qed

theorem absence_keeps_polling_witness:
  "\<not> deleted ([''1.2.3.4''], None) \<and>
   \<not> deleted ([], Some ''server misbehaving'') \<and>
   deleted ([], Some ''lookup kubernoisy-0: no such host'') \<and>
   2 < polls (verify deleted
     \<lparr>LookupIP = (\<lambda>name i. if i = 0 then ([''1.2.3.4''], None)
                             else if i = 1 then ([], Some ''server misbehaving'')
                             else ([], Some ''lookup kubernoisy-0: no such host'')),
      lookup_time = (\<lambda>i. 0), oversleep = (\<lambda>i. 0)\<rparr>
     ''kubernoisy-0'' (30 * Second))"
  using absence_keeps_polling [of "[''1.2.3.4'']" None 0 "30 * Second"
     "\<lparr>LookupIP = (\<lambda>name i. if i = 0 then ([''1.2.3.4''], None)
                             else if i = 1 then ([], Some ''server misbehaving'')
                             else ([], Some ''lookup kubernoisy-0: no such host'')),
      lookup_time = (\<lambda>i. 0), oversleep = (\<lambda>i. 0)\<rparr>" "''kubernoisy-0''" 0 0 "Suc (Suc 0)"]
  by (simp add: Second_def less_Suc_eq)

subsection \<open>Churn cycle\<close>

lemmas phase_main_defs =
  create_service_main_def create_endpoints_main_def delete_service_main_def

lemmas phase_part_001_defs =
  create_pod_part_001_def create_service_part_001_def delete_pod_part_001_def
  delete_service_part_001_def

lemma verify_first_poll:
  assumes "0 < tmo" "cond (LookupIP d rando 0)"
  shows "verify cond d rando tmo =
           \<lparr>verified = True, elapsed = 0, returned_at = int (lookup_time d 0), polls = Suc 0\<rparr>"
  using verify_converges [of 0 cond d rando tmo] assms by simp

lemma ValidationDuration_phase_main:
  "ValidationDuration (create_service_main cfg kapi rando w) = ValidationDuration w"
  "ValidationDuration (create_endpoints_main cfg kapi rando ip w) = ValidationDuration w"
  "ValidationDuration (delete_service_main cfg kapi rando w) = ValidationDuration w"
  by (simp_all add: phase_main_defs call_api_def OperationCount_Inc_def log_Printf_def
        debugf_def split: option.splits)

lemma ValidationDuration_phase_part_001:
  "ValidationDuration (create_pod_part_001 cfg kapi rando w) = ValidationDuration w"
  "ValidationDuration (create_service_part_001 cfg kapi rando w) = ValidationDuration w"
  "ValidationDuration (delete_pod_part_001 cfg kapi rando w) = ValidationDuration w"
  "ValidationDuration (delete_service_part_001 cfg kapi rando w) = ValidationDuration w"
  by (simp_all add: phase_part_001_defs call_api_def OperationCount_Inc_def log_Printf_def
        debugf_def split: option.splits)

lemma ValidationDuration_record_validation:
  "ValidationDuration (record_validation act r w) a =
     (if verified r \<and> a = act then ValidationDuration w a @ [elapsed r]
      else ValidationDuration w a)"
  by (simp add: record_validation_def ValidationFailCount_Inc_def
        ValidationDuration_Observe_def)

lemma ValidationDuration_cycle_main:
  "ValidationDuration (cycle_main cfg kapi d_add d_del rando w) a =
     ValidationDuration
        (record_validation ''delete'' (verify deleted d_del rando (timeout cfg))
           (record_validation ''add''
              (verify (added_main ''1.2.3.4'') d_add rando (timeout cfg)) w)) a"
  by (simp only: cycle_main_def ValidationDuration_record_validation
        ValidationDuration_phase_main)

lemma ValidationDuration_cycle_part_001:
  "ValidationDuration (cycle_part_001 cfg kapi d_add d_del rando w) a =
     ValidationDuration
        (record_validation ''delete'' (verify deleted d_del rando (timeout cfg))
           (record_validation ''add''
              (verify added_part_001 d_add rando (timeout cfg)) w)) a"
  by (simp only: cycle_part_001_def ValidationDuration_record_validation
        ValidationDuration_phase_part_001)

lemma poll_start_sum:
  "poll_start d k = (\<Sum>j<k. int (lookup_time d j) + Second + int (oversleep d j))"
  by (induction k) simp_all

text \<open>
  C10.  In both loops \<^verbatim>\<open>elapsed\<close> is assigned only after a sleep, before the next
  poll.  When the condition holds at the very first poll (and the timeout is positive),
  the loop ends with \<^verbatim>\<open>elapsed = 0\<close>, however long that lookup took, and the value
  observed into the histogram is exactly 0.  In general, when poll \<open>k\<close> is the first whose
  lookup satisfies the condition and it begins before the timeout, the value observed is
  the sum, over the \<open>k\<close> polls that failed, of the time of the lookup and of the sleep
  after it: the time since \<^verbatim>\<open>start\<close> at the end of the sleep before the successful
  poll, at least \<open>k\<close> seconds, while that poll returned \<open>lookup_time d k\<close> later.  A loop
  that ends verified always ended so.  The same holds for the histograms \<^verbatim>\<open>add\<close> and
  \<^verbatim>\<open>delete\<close> of a whole cycle, in both versions.
\<close>

theorem elapsed_set_after_sleep:
  "(0 < tmo \<and> cond (LookupIP d rando 0) \<longrightarrow>
      verify cond d rando tmo =
        \<lparr>verified = True, elapsed = 0, returned_at = int (lookup_time d 0), polls = Suc 0\<rparr> \<and>
      ValidationDuration (record_validation act (verify cond d rando tmo) w) act =
        ValidationDuration w act @ [0]) \<and>
   ((\<forall>j<k. \<not> cond (LookupIP d rando j)) \<and> cond (LookupIP d rando k) \<and>
    (\<Sum>j<k. int (lookup_time d j) + Second + int (oversleep d j)) < tmo \<longrightarrow>
      verify cond d rando tmo =
        \<lparr>verified = True,
         elapsed = (\<Sum>j<k. int (lookup_time d j) + Second + int (oversleep d j)),
         returned_at = (\<Sum>j<k. int (lookup_time d j) + Second + int (oversleep d j)) +
                       int (lookup_time d k),
         polls = Suc k\<rparr> \<and>
      ValidationDuration (record_validation act (verify cond d rando tmo) w) act =
        ValidationDuration w act @
          [\<Sum>j<k. int (lookup_time d j) + Second + int (oversleep d j)] \<and>
      int k * Second \<le> elapsed (verify cond d rando tmo) \<and>
      returned_at (verify cond d rando tmo) =
        elapsed (verify cond d rando tmo) + int (lookup_time d k)) \<and>
   (verified (verify cond d rando tmo) \<longrightarrow>
      (\<exists>k. polls (verify cond d rando tmo) = Suc k \<and>
         cond (LookupIP d rando k) \<and> (\<forall>j<k. \<not> cond (LookupIP d rando j)) \<and>
         elapsed (verify cond d rando tmo) =
           (\<Sum>j<k. int (lookup_time d j) + Second + int (oversleep d j)) \<and>
         returned_at (verify cond d rando tmo) =
           elapsed (verify cond d rando tmo) + int (lookup_time d k))) \<and>
   ((\<forall>j<k. \<not> added_main ''1.2.3.4'' (LookupIP d_add rando j)) \<and>
    added_main ''1.2.3.4'' (LookupIP d_add rando k) \<and>
    (\<Sum>j<k. int (lookup_time d_add j) + Second + int (oversleep d_add j)) < timeout cfg \<longrightarrow>
      ValidationDuration (cycle_main cfg kapi d_add d_del rando w) ''add'' =
        ValidationDuration w ''add'' @
          [\<Sum>j<k. int (lookup_time d_add j) + Second + int (oversleep d_add j)]) \<and>
   ((\<forall>j<k. \<not> deleted (LookupIP d_del rando j)) \<and> deleted (LookupIP d_del rando k) \<and>
    (\<Sum>j<k. int (lookup_time d_del j) + Second + int (oversleep d_del j)) < timeout cfg \<longrightarrow>
      ValidationDuration (cycle_main cfg kapi d_add d_del rando w) ''delete'' =
        ValidationDuration w ''delete'' @
          [\<Sum>j<k. int (lookup_time d_del j) + Second + int (oversleep d_del j)]) \<and>
   ((\<forall>j<k. \<not> added_part_001 (LookupIP d_add rando j)) \<and>
    added_part_001 (LookupIP d_add rando k) \<and>
    (\<Sum>j<k. int (lookup_time d_add j) + Second + int (oversleep d_add j)) < timeout cfg \<longrightarrow>
      ValidationDuration (cycle_part_001 cfg kapi d_add d_del rando w) ''add'' =
        ValidationDuration w ''add'' @
          [\<Sum>j<k. int (lookup_time d_add j) + Second + int (oversleep d_add j)]) \<and>
   ((\<forall>j<k. \<not> deleted (LookupIP d_del rando j)) \<and> deleted (LookupIP d_del rando k) \<and>
    (\<Sum>j<k. int (lookup_time d_del j) + Second + int (oversleep d_del j)) < timeout cfg \<longrightarrow>
      ValidationDuration (cycle_part_001 cfg kapi d_add d_del rando w) ''delete'' =
        ValidationDuration w ''delete'' @
          [\<Sum>j<k. int (lookup_time d_del j) + Second + int (oversleep d_del j)]) \<and>
   (0 < timeout cfg \<and> added_main ''1.2.3.4'' (LookupIP d_add rando 0) \<longrightarrow>
      ValidationDuration (cycle_main cfg kapi d_add d_del rando w) ''add'' =
        ValidationDuration w ''add'' @ [0]) \<and>
   (0 < timeout cfg \<and> deleted (LookupIP d_del rando 0) \<longrightarrow>
      ValidationDuration (cycle_main cfg kapi d_add d_del rando w) ''delete'' =
        ValidationDuration w ''delete'' @ [0]) \<and>
   (0 < timeout cfg \<and> added_part_001 (LookupIP d_add rando 0) \<longrightarrow>
      ValidationDuration (cycle_part_001 cfg kapi d_add d_del rando w) ''add'' =
        ValidationDuration w ''add'' @ [0]) \<and>
   (0 < timeout cfg \<and> deleted (LookupIP d_del rando 0) \<longrightarrow>
      ValidationDuration (cycle_part_001 cfg kapi d_add d_del rando w) ''delete'' =
        ValidationDuration w ''delete'' @ [0])"
proof -
  have conv: "verify c e rando t =
        \<lparr>verified = True,
         elapsed = (\<Sum>j<k. int (lookup_time e j) + Second + int (oversleep e j)),
         returned_at = (\<Sum>j<k. int (lookup_time e j) + Second + int (oversleep e j)) +
                       int (lookup_time e k),
         polls = Suc k\<rparr>"
    if "(\<forall>j<k. \<not> c (LookupIP e rando j)) \<and> c (LookupIP e rando k) \<and>
        (\<Sum>j<k. int (lookup_time e j) + Second + int (oversleep e j)) < t"
    for c e t k
    using verify_converges [of k c e rando t] that by (simp add: poll_start_sum)
  have first: "verify c e rando t =
        \<lparr>verified = True, elapsed = 0, returned_at = int (lookup_time e 0), polls = Suc 0\<rparr>"
    if "0 < t \<and> c (LookupIP e rando 0)" for c e t
    using verify_first_poll [of t c e rando] that by blast
  have P1: "0 < tmo \<and> cond (LookupIP d rando 0) \<longrightarrow>
      verify cond d rando tmo =
        \<lparr>verified = True, elapsed = 0, returned_at = int (lookup_time d 0), polls = Suc 0\<rparr> \<and>
      ValidationDuration (record_validation act (verify cond d rando tmo) w) act =
        ValidationDuration w act @ [0]"
    using first [of tmo cond d] by (simp add: ValidationDuration_record_validation)
  have P2: "(\<forall>j<k. \<not> cond (LookupIP d rando j)) \<and> cond (LookupIP d rando k) \<and>
    (\<Sum>j<k. int (lookup_time d j) + Second + int (oversleep d j)) < tmo \<longrightarrow>
      verify cond d rando tmo =
        \<lparr>verified = True,
         elapsed = (\<Sum>j<k. int (lookup_time d j) + Second + int (oversleep d j)),
         returned_at = (\<Sum>j<k. int (lookup_time d j) + Second + int (oversleep d j)) +
                       int (lookup_time d k),
         polls = Suc k\<rparr> \<and>
      ValidationDuration (record_validation act (verify cond d rando tmo) w) act =
        ValidationDuration w act @
          [\<Sum>j<k. int (lookup_time d j) + Second + int (oversleep d j)] \<and>
      int k * Second \<le> elapsed (verify cond d rando tmo) \<and>
      returned_at (verify cond d rando tmo) =
        elapsed (verify cond d rando tmo) + int (lookup_time d k)"
  proof
    assume a: "(\<forall>j<k. \<not> cond (LookupIP d rando j)) \<and> cond (LookupIP d rando k) \<and>
      (\<Sum>j<k. int (lookup_time d j) + Second + int (oversleep d j)) < tmo"
    note c = conv [OF a]
    have "int k * Second \<le> (\<Sum>j<k. int (lookup_time d j) + Second + int (oversleep d j))"
      using poll_start_lower [of k d] by (simp add: poll_start_sum)
    then show "verify cond d rando tmo =
        \<lparr>verified = True,
         elapsed = (\<Sum>j<k. int (lookup_time d j) + Second + int (oversleep d j)),
         returned_at = (\<Sum>j<k. int (lookup_time d j) + Second + int (oversleep d j)) +
                       int (lookup_time d k),
         polls = Suc k\<rparr> \<and>
      ValidationDuration (record_validation act (verify cond d rando tmo) w) act =
        ValidationDuration w act @
          [\<Sum>j<k. int (lookup_time d j) + Second + int (oversleep d j)] \<and>
      int k * Second \<le> elapsed (verify cond d rando tmo) \<and>
      returned_at (verify cond d rando tmo) =
        elapsed (verify cond d rando tmo) + int (lookup_time d k)"
      by (simp add: c ValidationDuration_record_validation)
  qed
  have P3: "verified (verify cond d rando tmo) \<longrightarrow>
      (\<exists>k. polls (verify cond d rando tmo) = Suc k \<and>
         cond (LookupIP d rando k) \<and> (\<forall>j<k. \<not> cond (LookupIP d rando j)) \<and>
         elapsed (verify cond d rando tmo) =
           (\<Sum>j<k. int (lookup_time d j) + Second + int (oversleep d j)) \<and>
         returned_at (verify cond d rando tmo) =
           elapsed (verify cond d rando tmo) + int (lookup_time d k))"
  proof
    assume v: "verified (verify cond d rando tmo)"
    from verify_verified [OF v] obtain n where
      n: "verify cond d rando tmo =
           \<lparr>verified = True, elapsed = poll_start d n,
            returned_at = poll_start d n + int (lookup_time d n), polls = Suc n\<rparr>"
         "cond (LookupIP d rando n)" "\<forall>j<n. \<not> cond (LookupIP d rando j)"
      by blast
    show "\<exists>k. polls (verify cond d rando tmo) = Suc k \<and>
         cond (LookupIP d rando k) \<and> (\<forall>j<k. \<not> cond (LookupIP d rando j)) \<and>
         elapsed (verify cond d rando tmo) =
           (\<Sum>j<k. int (lookup_time d j) + Second + int (oversleep d j)) \<and>
         returned_at (verify cond d rando tmo) =
           elapsed (verify cond d rando tmo) + int (lookup_time d k)"
      using n(2,3) by (intro exI [of _ n]) (simp add: n(1) poll_start_sum)
  qed
  have C1: "(\<forall>j<k. \<not> added_main ''1.2.3.4'' (LookupIP d_add rando j)) \<and>
    added_main ''1.2.3.4'' (LookupIP d_add rando k) \<and>
    (\<Sum>j<k. int (lookup_time d_add j) + Second + int (oversleep d_add j)) < timeout cfg \<longrightarrow>
      ValidationDuration (cycle_main cfg kapi d_add d_del rando w) ''add'' =
        ValidationDuration w ''add'' @
          [\<Sum>j<k. int (lookup_time d_add j) + Second + int (oversleep d_add j)]"
    using conv [of k "added_main ''1.2.3.4''" d_add "timeout cfg"]
    by (simp add: ValidationDuration_cycle_main ValidationDuration_record_validation)
  have C2: "(\<forall>j<k. \<not> deleted (LookupIP d_del rando j)) \<and> deleted (LookupIP d_del rando k) \<and>
    (\<Sum>j<k. int (lookup_time d_del j) + Second + int (oversleep d_del j)) < timeout cfg \<longrightarrow>
      ValidationDuration (cycle_main cfg kapi d_add d_del rando w) ''delete'' =
        ValidationDuration w ''delete'' @
          [\<Sum>j<k. int (lookup_time d_del j) + Second + int (oversleep d_del j)]"
    using conv [of k deleted d_del "timeout cfg"]
    by (simp add: ValidationDuration_cycle_main ValidationDuration_record_validation)
  have C3: "(\<forall>j<k. \<not> added_part_001 (LookupIP d_add rando j)) \<and>
    added_part_001 (LookupIP d_add rando k) \<and>
    (\<Sum>j<k. int (lookup_time d_add j) + Second + int (oversleep d_add j)) < timeout cfg \<longrightarrow>
      ValidationDuration (cycle_part_001 cfg kapi d_add d_del rando w) ''add'' =
        ValidationDuration w ''add'' @
          [\<Sum>j<k. int (lookup_time d_add j) + Second + int (oversleep d_add j)]"
    using conv [of k added_part_001 d_add "timeout cfg"]
    by (simp add: ValidationDuration_cycle_part_001 ValidationDuration_record_validation)
  have C4: "(\<forall>j<k. \<not> deleted (LookupIP d_del rando j)) \<and> deleted (LookupIP d_del rando k) \<and>
    (\<Sum>j<k. int (lookup_time d_del j) + Second + int (oversleep d_del j)) < timeout cfg \<longrightarrow>
      ValidationDuration (cycle_part_001 cfg kapi d_add d_del rando w) ''delete'' =
        ValidationDuration w ''delete'' @
          [\<Sum>j<k. int (lookup_time d_del j) + Second + int (oversleep d_del j)]"
    using conv [of k deleted d_del "timeout cfg"]
    by (simp add: ValidationDuration_cycle_part_001 ValidationDuration_record_validation)
  have F1: "0 < timeout cfg \<and> added_main ''1.2.3.4'' (LookupIP d_add rando 0) \<longrightarrow>
      ValidationDuration (cycle_main cfg kapi d_add d_del rando w) ''add'' =
        ValidationDuration w ''add'' @ [0]"
    using first [of "timeout cfg" "added_main ''1.2.3.4''" d_add]
    by (simp add: ValidationDuration_cycle_main ValidationDuration_record_validation)
  have F2: "0 < timeout cfg \<and> deleted (LookupIP d_del rando 0) \<longrightarrow>
      ValidationDuration (cycle_main cfg kapi d_add d_del rando w) ''delete'' =
        ValidationDuration w ''delete'' @ [0]"
    using first [of "timeout cfg" deleted d_del]
    by (simp add: ValidationDuration_cycle_main ValidationDuration_record_validation)
  have F3: "0 < timeout cfg \<and> added_part_001 (LookupIP d_add rando 0) \<longrightarrow>
      ValidationDuration (cycle_part_001 cfg kapi d_add d_del rando w) ''add'' =
        ValidationDuration w ''add'' @ [0]"
    using first [of "timeout cfg" added_part_001 d_add]
    by (simp add: ValidationDuration_cycle_part_001 ValidationDuration_record_validation)
  have F4: "0 < timeout cfg \<and> deleted (LookupIP d_del rando 0) \<longrightarrow>
      ValidationDuration (cycle_part_001 cfg kapi d_add d_del rando w) ''delete'' =
        ValidationDuration w ''delete'' @ [0]"
    using first [of "timeout cfg" deleted d_del]
    by (simp add: ValidationDuration_cycle_part_001 ValidationDuration_record_validation)
  from P1 P2 P3 C1 C2 C3 C4 F1 F2 F3 F4 show ?thesis
    by (intro conjI)
qed


theorem elapsed_set_after_sleep_witness:
  "verify (added_main ''1.2.3.4'')
     (stub_dns 2 ''server misbehaving'' ([''1.2.3.4''], None) 250000000)
     ''kubernoisy-0'' (timeout default_config_main) =
     \<lparr>verified = True, elapsed = 2500000000, returned_at = 2750000000, polls = 3\<rparr> \<and>
   ValidationDuration
     (cycle_main default_config_main working_api
        (stub_dns 2 ''server misbehaving'' ([''1.2.3.4''], None) 250000000)
        (stub_dns 1 ''server misbehaving''
           ([], Some ''lookup kubernoisy-0: no such host'') 250000000)
        ''kubernoisy-0'' initial_world) ''add'' = [2500000000] \<and>
   ValidationDuration
     (cycle_main default_config_main working_api
        (stub_dns 2 ''server misbehaving'' ([''1.2.3.4''], None) 250000000)
        (stub_dns 1 ''server misbehaving''
           ([], Some ''lookup kubernoisy-0: no such host'') 250000000)
        ''kubernoisy-0'' initial_world) ''delete'' = [1250000000] \<and>
   verify (added_main ''1.2.3.4'') (stub_dns 0 [] ([''1.2.3.4''], None) 250000000)
     ''kubernoisy-0'' (timeout default_config_main) =
     \<lparr>verified = True, elapsed = 0, returned_at = 250000000, polls = Suc 0\<rparr> \<and>
   ValidationDuration
     (cycle_part_001 default_config_part_001 working_api
        (stub_dns 0 [] ([''1.2.3.4''], None) 250000000)
        (stub_dns 0 [] ([], Some ''lookup kubernoisy-0: no such host'') 250000000)
        ''kubernoisy-0'' initial_world) ''add'' = [0] \<and>
   ValidationDuration
     (cycle_part_001 default_config_part_001 working_api
        (stub_dns 0 [] ([''1.2.3.4''], None) 250000000)
        (stub_dns 0 [] ([], Some ''lookup kubernoisy-0: no such host'') 250000000)
        ''kubernoisy-0'' initial_world) ''delete'' = [0]"
  using elapsed_set_after_sleep [where tmo = "timeout default_config_main"
      and cond = "added_main ''1.2.3.4''" and k = "Suc (Suc 0)"
      and d = "stub_dns 2 ''server misbehaving'' ([''1.2.3.4''], None) 250000000"
      and rando = "''kubernoisy-0''" and act = "''add''" and w = initial_world
      and cfg = default_config_main and kapi = working_api
      and d_add = "stub_dns 2 ''server misbehaving'' ([''1.2.3.4''], None) 250000000"
      and d_del = "stub_dns 1 ''server misbehaving''
           ([], Some ''lookup kubernoisy-0: no such host'') 250000000"]
    elapsed_set_after_sleep [where tmo = "timeout default_config_main"
      and cond = deleted and k = "Suc 0"
      and d = "stub_dns 1 ''server misbehaving''
           ([], Some ''lookup kubernoisy-0: no such host'') 250000000"
      and rando = "''kubernoisy-0''" and act = "''delete''" and w = initial_world
      and cfg = default_config_main and kapi = working_api
      and d_add = "stub_dns 2 ''server misbehaving'' ([''1.2.3.4''], None) 250000000"
      and d_del = "stub_dns 1 ''server misbehaving''
           ([], Some ''lookup kubernoisy-0: no such host'') 250000000"]
    elapsed_set_after_sleep [where tmo = "timeout default_config_main"
      and cond = "added_main ''1.2.3.4''" and k = 0
      and d = "stub_dns 0 [] ([''1.2.3.4''], None) 250000000"
      and rando = "''kubernoisy-0''" and act = "''add''" and w = initial_world
      and cfg = default_config_part_001 and kapi = working_api
      and d_add = "stub_dns 0 [] ([''1.2.3.4''], None) 250000000"
      and d_del = "stub_dns 0 [] ([], Some ''lookup kubernoisy-0: no such host'') 250000000"]
  by (simp add: default_config_main_def default_config_part_001_def stub_dns_def
        initial_world_def Second_def less_Suc_eq)

subsection \<open>Action counters, calls and log lines of a cycle\<close>

lemma OperationCount_record_validation:
  "OperationCount (record_validation act r w) = OperationCount w"
  by (simp add: record_validation_def ValidationFailCount_Inc_def
        ValidationDuration_Observe_def)

lemma OperationCount_phase_main:
  "OperationCount (create_service_main cfg kapi rando w) =
     (OperationCount w)((''service'', ''add'') := Suc (OperationCount w (''service'', ''add'')))"
  "OperationCount (create_endpoints_main cfg kapi rando ip w) =
     (OperationCount w)((''endpoints'', ''add'') := Suc (OperationCount w (''endpoints'', ''add'')))"
  "OperationCount (delete_service_main cfg kapi rando w) =
     (OperationCount w)((''service'', ''delete'') := Suc (OperationCount w (''service'', ''delete'')))"
  by (simp_all add: phase_main_defs call_api_def OperationCount_Inc_def log_Printf_def
        debugf_def split: option.splits)

lemma OperationCount_phase_part_001:
  "OperationCount (create_pod_part_001 cfg kapi rando w) =
     (if kapi (Pods_Create (namespace cfg) (pod_part_001 rando (namespace cfg))) = None
      then (OperationCount w)((''pod'', ''add'') := Suc (OperationCount w (''pod'', ''add'')))
      else OperationCount w)"
  "OperationCount (create_service_part_001 cfg kapi rando w) =
     (if kapi (Services_Create (namespace cfg) (svc_part_001 rando (namespace cfg))) = None
      then (OperationCount w)((''service'', ''add'') := Suc (OperationCount w (''service'', ''add'')))
      else OperationCount w)"
  "OperationCount (delete_pod_part_001 cfg kapi rando w) =
     (if kapi (Pods_Delete (namespace cfg) rando) = None
      then (OperationCount w)((''pod'', ''delete'') := Suc (OperationCount w (''pod'', ''delete'')))
      else OperationCount w)"
  "OperationCount (delete_service_part_001 cfg kapi rando w) =
     (if kapi (Services_Delete (namespace cfg) rando) = None
      then (OperationCount w)((''service'', ''delete'') := Suc (OperationCount w (''service'', ''delete'')))
      else OperationCount w)"
  by (simp_all add: phase_part_001_defs call_api_def OperationCount_Inc_def log_Printf_def
        debugf_def split: option.splits)

lemma OperationCount_cycle_main:
  "OperationCount (cycle_main cfg kapi d_add d_del rando w) =
     (OperationCount w)
       ((''service'', ''add'') := Suc (OperationCount w (''service'', ''add'')),
        (''endpoints'', ''add'') := Suc (OperationCount w (''endpoints'', ''add'')),
        (''service'', ''delete'') := Suc (OperationCount w (''service'', ''delete'')))"
  by (simp add: cycle_main_def OperationCount_record_validation OperationCount_phase_main)

lemma OperationCount_cycle_part_001:
  "OperationCount (cycle_part_001 cfg kapi d_add d_del rando w) l =
     OperationCount w l +
     (if l = (''pod'', ''add'') \<and>
         kapi (Pods_Create (namespace cfg) (pod_part_001 rando (namespace cfg))) = None
      then 1 else 0) +
     (if l = (''service'', ''add'') \<and>
         kapi (Services_Create (namespace cfg) (svc_part_001 rando (namespace cfg))) = None
      then 1 else 0) +
     (if l = (''pod'', ''delete'') \<and> kapi (Pods_Delete (namespace cfg) rando) = None
      then 1 else 0) +
     (if l = (''service'', ''delete'') \<and> kapi (Services_Delete (namespace cfg) rando) = None
      then 1 else 0)"
  by (simp add: cycle_part_001_def OperationCount_record_validation
        OperationCount_phase_part_001)


lemma api_calls_record_validation:
  "api_calls (record_validation act r w) = api_calls w"
  by (simp add: record_validation_def ValidationFailCount_Inc_def
        ValidationDuration_Observe_def)

lemma api_calls_phase_main:
  "api_calls (create_service_main cfg kapi rando w) =
     api_calls w @ [Services_Create (namespace cfg) (svc_main rando (namespace cfg))]"
  "api_calls (create_endpoints_main cfg kapi rando ip w) =
     api_calls w @ [Endpoints_Create (namespace cfg) (eps_main rando (namespace cfg) ip)]"
  "api_calls (delete_service_main cfg kapi rando w) =
     api_calls w @ [Services_Delete (namespace cfg) rando]"
  by (simp_all add: phase_main_defs call_api_def OperationCount_Inc_def log_Printf_def
        debugf_def split: option.splits)

lemma api_calls_phase_part_001:
  "api_calls (create_pod_part_001 cfg kapi rando w) =
     api_calls w @ [Pods_Create (namespace cfg) (pod_part_001 rando (namespace cfg))]"
  "api_calls (create_service_part_001 cfg kapi rando w) =
     api_calls w @ [Services_Create (namespace cfg) (svc_part_001 rando (namespace cfg))]"
  "api_calls (delete_pod_part_001 cfg kapi rando w) =
     api_calls w @ [Pods_Delete (namespace cfg) rando]"
  "api_calls (delete_service_part_001 cfg kapi rando w) =
     api_calls w @ [Services_Delete (namespace cfg) rando]"
  by (simp_all add: phase_part_001_defs call_api_def OperationCount_Inc_def log_Printf_def
        debugf_def split: option.splits)

lemma new_calls_cycle_main:
  "new_calls w (cycle_main cfg kapi d_add d_del rando w) =
     [Services_Create (namespace cfg) (svc_main rando (namespace cfg)),
      Endpoints_Create (namespace cfg) (eps_main rando (namespace cfg) ''1.2.3.4''),
      Services_Delete (namespace cfg) rando]"
  by (simp add: new_calls_def cycle_main_def api_calls_record_validation api_calls_phase_main)

lemma new_calls_cycle_part_001:
  "new_calls w (cycle_part_001 cfg kapi d_add d_del rando w) =
     [Pods_Create (namespace cfg) (pod_part_001 rando (namespace cfg)),
      Services_Create (namespace cfg) (svc_part_001 rando (namespace cfg)),
      Pods_Delete (namespace cfg) rando,
      Services_Delete (namespace cfg) rando]"
  by (simp add: new_calls_def cycle_part_001_def api_calls_record_validation
        api_calls_phase_part_001)

lemma log_output_record_validation:
  "log_output (record_validation act r w) = log_output w"
  by (simp add: record_validation_def ValidationFailCount_Inc_def
        ValidationDuration_Observe_def)

lemma log_output_phase_main:
  "log_output (create_service_main cfg kapi rando w) =
     log_output w @
     (case kapi (Services_Create (namespace cfg) (svc_main rando (namespace cfg))) of
        None \<Rightarrow> []
      | Some e \<Rightarrow> [(''could not create service %v.%v: %v'',
                     [Str rando, Str (namespace cfg), Str e])])"
  "log_output (create_endpoints_main cfg kapi rando ip w) =
     log_output w @
     (case kapi (Endpoints_Create (namespace cfg) (eps_main rando (namespace cfg) ip)) of
        None \<Rightarrow> []
      | Some e \<Rightarrow> if verbose cfg
                  then [(''could not create endpoints %v.%v: %v'',
                         [Str rando, Str (namespace cfg), Str e])]
                  else [])"
  "log_output (delete_service_main cfg kapi rando w) =
     log_output w @
     (case kapi (Services_Delete (namespace cfg) rando) of
        None \<Rightarrow> []
      | Some e \<Rightarrow> if verbose cfg
                  then [(''could not delete service %v.%v: %v'',
                         [Str rando, Str (namespace cfg), Str e])]
                  else [])"
  by (simp_all add: phase_main_defs call_api_def OperationCount_Inc_def log_Printf_def
        debugf_def split: option.splits)

lemma log_output_phase_part_001:
  "log_output (create_pod_part_001 cfg kapi rando w) =
     log_output w @
     (case kapi (Pods_Create (namespace cfg) (pod_part_001 rando (namespace cfg))) of
        None \<Rightarrow> []
      | Some e \<Rightarrow> [(''could not create pod %v.%v: %v'',
                     [Str rando, Str (namespace cfg), Str e])])"
  "log_output (create_service_part_001 cfg kapi rando w) =
     log_output w @
     (case kapi (Services_Create (namespace cfg) (svc_part_001 rando (namespace cfg))) of
        None \<Rightarrow> []
      | Some e \<Rightarrow> [(''could not create service %v.%v: %v'',
                     [Str rando, Str (namespace cfg), Str e])])"
  "log_output (delete_pod_part_001 cfg kapi rando w) =
     log_output w @
     (case kapi (Pods_Delete (namespace cfg) rando) of
        None \<Rightarrow> []
      | Some e \<Rightarrow> if verbose cfg
                  then [(''could not delete pod pod.%v.%v: %v'',
                         [Str rando, Str (namespace cfg), Str e])]
                  else [])"
  "log_output (delete_service_part_001 cfg kapi rando w) =
     log_output w @
     (case kapi (Services_Delete (namespace cfg) rando) of
        None \<Rightarrow> []
      | Some e \<Rightarrow> if verbose cfg
                  then [(''could not delete service %v.%v: %v'',
                         [Str rando, Str (namespace cfg), Str e])]
                  else [])"
  by (simp_all add: phase_part_001_defs call_api_def OperationCount_Inc_def log_Printf_def
        debugf_def split: option.splits)

lemma new_log_cycle_main:
  "new_log w (cycle_main cfg kapi d_add d_del rando w) =
     (case kapi (Services_Create (namespace cfg) (svc_main rando (namespace cfg))) of
        None \<Rightarrow> []
      | Some e \<Rightarrow> [(''could not create service %v.%v: %v'',
                     [Str rando, Str (namespace cfg), Str e])]) @
     (case kapi (Endpoints_Create (namespace cfg)
                   (eps_main rando (namespace cfg) ''1.2.3.4'')) of
        None \<Rightarrow> []
      | Some e \<Rightarrow> if verbose cfg
                  then [(''could not create endpoints %v.%v: %v'',
                         [Str rando, Str (namespace cfg), Str e])]
                  else []) @
     (case kapi (Services_Delete (namespace cfg) rando) of
        None \<Rightarrow> []
      | Some e \<Rightarrow> if verbose cfg
                  then [(''could not delete service %v.%v: %v'',
                         [Str rando, Str (namespace cfg), Str e])]
                  else [])"
  by (simp add: new_log_def cycle_main_def log_output_record_validation log_output_phase_main)

lemma new_log_cycle_part_001:
  "new_log w (cycle_part_001 cfg kapi d_add d_del rando w) =
     (case kapi (Pods_Create (namespace cfg) (pod_part_001 rando (namespace cfg))) of
        None \<Rightarrow> []
      | Some e \<Rightarrow> [(''could not create pod %v.%v: %v'',
                     [Str rando, Str (namespace cfg), Str e])]) @
     (case kapi (Services_Create (namespace cfg) (svc_part_001 rando (namespace cfg))) of
        None \<Rightarrow> []
      | Some e \<Rightarrow> [(''could not create service %v.%v: %v'',
                     [Str rando, Str (namespace cfg), Str e])]) @
     (case kapi (Pods_Delete (namespace cfg) rando) of
        None \<Rightarrow> []
      | Some e \<Rightarrow> if verbose cfg
                  then [(''could not delete pod pod.%v.%v: %v'',
                         [Str rando, Str (namespace cfg), Str e])]
                  else []) @
     (case kapi (Services_Delete (namespace cfg) rando) of
        None \<Rightarrow> []
      | Some e \<Rightarrow> if verbose cfg
                  then [(''could not delete service %v.%v: %v'',
                         [Str rando, Str (namespace cfg), Str e])]
                  else [])"
  by (simp add: new_log_def cycle_part_001_def log_output_record_validation
        log_output_phase_part_001)

text \<open>
  C2 (as amended).  The two versions follow two policies, and neither mixes them.  In
  \<^verbatim>\<open>src/main.go\<close> a cycle increments the counters \<^verbatim>\<open>{service, add}\<close>,
  \<^verbatim>\<open>{endpoints, add}\<close> and \<^verbatim>\<open>{service, delete}\<close> by one each and no other
  counter, whatever the API calls return.  In \<^verbatim>\<open>src/unnamed/part_001\<close> each of
  \<^verbatim>\<open>{pod, add}\<close>, \<^verbatim>\<open>{service, add}\<close>, \<^verbatim>\<open>{pod, delete}\<close> and
  \<^verbatim>\<open>{service, delete}\<close> is incremented by one exactly when its own call returned no
  error.
\<close>

theorem action_counters_count_attempts_or_successes:
  "OperationCount (cycle_main cfg kapi d_add d_del rando w) =
     (OperationCount w)
       ((''service'', ''add'') := Suc (OperationCount w (''service'', ''add'')),
        (''endpoints'', ''add'') := Suc (OperationCount w (''endpoints'', ''add'')),
        (''service'', ''delete'') := Suc (OperationCount w (''service'', ''delete''))) \<and>
   OperationCount (cycle_part_001 cfg' kapi d_add d_del rando w) l =
     OperationCount w l +
     (if l = (''pod'', ''add'') \<and>
         kapi (Pods_Create (namespace cfg') (pod_part_001 rando (namespace cfg'))) = None
      then 1 else 0) +
     (if l = (''service'', ''add'') \<and>
         kapi (Services_Create (namespace cfg') (svc_part_001 rando (namespace cfg'))) = None
      then 1 else 0) +
     (if l = (''pod'', ''delete'') \<and> kapi (Pods_Delete (namespace cfg') rando) = None
      then 1 else 0) +
     (if l = (''service'', ''delete'') \<and> kapi (Services_Delete (namespace cfg') rando) = None
      then 1 else 0)"
  using OperationCount_cycle_main [of cfg kapi d_add d_del rando w]
    OperationCount_cycle_part_001 [of cfg' kapi d_add d_del rando w l]
  by (rule conjI)

text \<open>
  The claim as stated fails in either version: in \<^verbatim>\<open>main.go\<close> the delete counter is
  incremented although the delete call failed, and in \<^verbatim>\<open>part_001\<close> the counter of
  the service creation is not incremented when that call failed.
\<close>

theorem action_counters_counterexample:
  "failing_api (Services_Delete (namespace default_config_main) ''kubernoisy-0'') \<noteq> None \<and>
   OperationCount
     (cycle_main default_config_main failing_api
        (stub_dns 0 [] ([''1.2.3.4''], None) 0)
        (stub_dns 0 [] ([], Some ''lookup kubernoisy-0: no such host'') 0)
        ''kubernoisy-0'' initial_world) (''service'', ''delete'') = 1 \<and>
   failing_api (Services_Create (namespace default_config_part_001)
       (svc_part_001 ''kubernoisy-0'' (namespace default_config_part_001))) \<noteq> None \<and>
   OperationCount
     (cycle_part_001 default_config_part_001 failing_api
        (stub_dns 0 [] ([''1.2.3.4''], None) 0)
        (stub_dns 0 [] ([], Some ''lookup kubernoisy-0: no such host'') 0)
        ''kubernoisy-0'' initial_world) (''service'', ''add'') = 0"
  by (simp add: OperationCount_cycle_main OperationCount_cycle_part_001 failing_api_def
        initial_world_def)

theorem action_counters_count_attempts_or_successes_witness:
  "OperationCount
     (cycle_part_001 default_config_part_001
        (\<lambda>c. case c of Pods_Delete ns n \<Rightarrow> Some ''not found'' | _ \<Rightarrow> None)
        (stub_dns 0 [] ([''1.2.3.4''], None) 0)
        (stub_dns 0 [] ([], Some ''lookup kubernoisy-0: no such host'') 0)
        ''kubernoisy-0'' initial_world) (''pod'', ''add'') = 1 \<and>
   OperationCount
     (cycle_part_001 default_config_part_001
        (\<lambda>c. case c of Pods_Delete ns n \<Rightarrow> Some ''not found'' | _ \<Rightarrow> None)
        (stub_dns 0 [] ([''1.2.3.4''], None) 0)
        (stub_dns 0 [] ([], Some ''lookup kubernoisy-0: no such host'') 0)
        ''kubernoisy-0'' initial_world) (''pod'', ''delete'') = 0"
  using action_counters_count_attempts_or_successes [where cfg' = default_config_part_001
      and cfg = default_config_main
      and kapi = "\<lambda>c. case c of Pods_Delete ns n \<Rightarrow> Some ''not found'' | _ \<Rightarrow> None"
      and d_add = "stub_dns 0 [] ([''1.2.3.4''], None) 0"
      and d_del = "stub_dns 0 [] ([], Some ''lookup kubernoisy-0: no such host'') 0"
      and rando = "''kubernoisy-0''" and w = initial_world and l = "(''pod'', ''add'')"]
    action_counters_count_attempts_or_successes [where cfg' = default_config_part_001
      and cfg = default_config_main
      and kapi = "\<lambda>c. case c of Pods_Delete ns n \<Rightarrow> Some ''not found'' | _ \<Rightarrow> None"
      and d_add = "stub_dns 0 [] ([''1.2.3.4''], None) 0"
      and d_del = "stub_dns 0 [] ([], Some ''lookup kubernoisy-0: no such host'') 0"
      and rando = "''kubernoisy-0''" and w = initial_world and l = "(''pod'', ''delete'')"]
  by (simp add: initial_world_def)

text \<open>
  C3 (as amended).  In \<^verbatim>\<open>src/main.go\<close> the counters count attempts: for every
  outcome of the API calls, a cycle adds to each counter the number of calls it made
  under that label, one for each of \<^verbatim>\<open>{service, add}\<close>, \<^verbatim>\<open>{endpoints, add}\<close>,
  \<^verbatim>\<open>{service, delete}\<close>.  In \<^verbatim>\<open>src/unnamed/part_001\<close> the counters count
  successes: a cycle adds to each counter the number of calls under that label that
  returned no error, so one \<^verbatim>\<open>add\<close> and one \<^verbatim>\<open>delete\<close> per kind only when the
  calls succeed.
\<close>

theorem counters_follow_calls:
  "OperationCount (cycle_main cfg kapi d_add d_del rando w) l =
     OperationCount w l +
     length (filter (\<lambda>c. call_label c = l)
       (new_calls w (cycle_main cfg kapi d_add d_del rando w))) \<and>
   OperationCount (cycle_part_001 cfg' kapi d_add d_del rando w) l =
     OperationCount w l +
     length (filter (\<lambda>c. call_label c = l \<and> kapi c = None)
       (new_calls w (cycle_part_001 cfg' kapi d_add d_del rando w))) \<and>
   map call_label (new_calls w (cycle_main cfg kapi d_add d_del rando w)) =
     [(''service'', ''add''), (''endpoints'', ''add''), (''service'', ''delete'')] \<and>
   map call_label (new_calls w (cycle_part_001 cfg' kapi d_add d_del rando w)) =
     [(''pod'', ''add''), (''service'', ''add''), (''pod'', ''delete''), (''service'', ''delete'')]"
proof (intro conjI)
  show "OperationCount (cycle_main cfg kapi d_add d_del rando w) l =
     OperationCount w l +
     length (filter (\<lambda>c. call_label c = l)
       (new_calls w (cycle_main cfg kapi d_add d_del rando w)))"
    by (simp add: OperationCount_cycle_main new_calls_cycle_main)
next
  show "OperationCount (cycle_part_001 cfg' kapi d_add d_del rando w) l =
     OperationCount w l +
     length (filter (\<lambda>c. call_label c = l \<and> kapi c = None)
       (new_calls w (cycle_part_001 cfg' kapi d_add d_del rando w)))"
    by (simp add: OperationCount_cycle_part_001 new_calls_cycle_part_001)
next
  show "map call_label (new_calls w (cycle_main cfg kapi d_add d_del rando w)) =
     [(''service'', ''add''), (''endpoints'', ''add''), (''service'', ''delete'')]"
    by (simp add: new_calls_cycle_main)
next
  show "map call_label (new_calls w (cycle_part_001 cfg' kapi d_add d_del rando w)) =
     [(''pod'', ''add''), (''service'', ''add''), (''pod'', ''delete''), (''service'', ''delete'')]"
    by (simp add: new_calls_cycle_part_001)
qed

text \<open>
  The claim as stated fails in \<^verbatim>\<open>part_001\<close>: the creation and the deletion of the
  pod are attempted, they fail, and neither counter moves.
\<close>

theorem counters_follow_calls_counterexample:
  "Pods_Create ''load-test'' (pod_part_001 ''kubernoisy-0'' ''load-test'') \<in> set
     (api_calls (cycle_part_001 default_config_part_001 failing_api
        (stub_dns 0 [] ([''1.2.3.4''], None) 0)
        (stub_dns 0 [] ([], Some ''lookup kubernoisy-0: no such host'') 0)
        ''kubernoisy-0'' initial_world)) \<and>
   OperationCount
     (cycle_part_001 default_config_part_001 failing_api
        (stub_dns 0 [] ([''1.2.3.4''], None) 0)
        (stub_dns 0 [] ([], Some ''lookup kubernoisy-0: no such host'') 0)
        ''kubernoisy-0'' initial_world) (''pod'', ''add'') = 0 \<and>
   OperationCount
     (cycle_part_001 default_config_part_001 failing_api
        (stub_dns 0 [] ([''1.2.3.4''], None) 0)
        (stub_dns 0 [] ([], Some ''lookup kubernoisy-0: no such host'') 0)
        ''kubernoisy-0'' initial_world) (''pod'', ''delete'') = 0"
proof -
  have "new_calls initial_world (cycle_part_001 default_config_part_001 failing_api
        (stub_dns 0 [] ([''1.2.3.4''], None) 0)
        (stub_dns 0 [] ([], Some ''lookup kubernoisy-0: no such host'') 0)
        ''kubernoisy-0'' initial_world) =
      [Pods_Create ''load-test'' (pod_part_001 ''kubernoisy-0'' ''load-test''),
       Services_Create ''load-test'' (svc_part_001 ''kubernoisy-0'' ''load-test''),
       Pods_Delete ''load-test'' ''kubernoisy-0'',
       Services_Delete ''load-test'' ''kubernoisy-0'']"
    by (simp add: new_calls_cycle_part_001 default_config_part_001_def)
  then have "api_calls (cycle_part_001 default_config_part_001 failing_api
        (stub_dns 0 [] ([''1.2.3.4''], None) 0)
        (stub_dns 0 [] ([], Some ''lookup kubernoisy-0: no such host'') 0)
        ''kubernoisy-0'' initial_world) =
      [Pods_Create ''load-test'' (pod_part_001 ''kubernoisy-0'' ''load-test''),
       Services_Create ''load-test'' (svc_part_001 ''kubernoisy-0'' ''load-test''),
       Pods_Delete ''load-test'' ''kubernoisy-0'',
       Services_Delete ''load-test'' ''kubernoisy-0'']"
    by (simp add: new_calls_def initial_world_def)
  then show ?thesis
    by (simp add: OperationCount_cycle_part_001 failing_api_def initial_world_def)
qed

subsection \<open>Failures of API calls\<close>

lemma ValidationFailCount_record_validation:
  "ValidationFailCount (record_validation act r w) a =
     (if \<not> verified r \<and> a = act then Suc (ValidationFailCount w a)
      else ValidationFailCount w a)"
  by (simp add: record_validation_def ValidationFailCount_Inc_def
        ValidationDuration_Observe_def)

lemma ValidationFailCount_phase_main:
  "ValidationFailCount (create_service_main cfg kapi rando w) = ValidationFailCount w"
  "ValidationFailCount (create_endpoints_main cfg kapi rando ip w) = ValidationFailCount w"
  "ValidationFailCount (delete_service_main cfg kapi rando w) = ValidationFailCount w"
  by (simp_all add: phase_main_defs call_api_def OperationCount_Inc_def log_Printf_def
        debugf_def split: option.splits)

lemma ValidationFailCount_phase_part_001:
  "ValidationFailCount (create_pod_part_001 cfg kapi rando w) = ValidationFailCount w"
  "ValidationFailCount (create_service_part_001 cfg kapi rando w) = ValidationFailCount w"
  "ValidationFailCount (delete_pod_part_001 cfg kapi rando w) = ValidationFailCount w"
  "ValidationFailCount (delete_service_part_001 cfg kapi rando w) = ValidationFailCount w"
  by (simp_all add: phase_part_001_defs call_api_def OperationCount_Inc_def log_Printf_def
        debugf_def split: option.splits)

lemma validations_recorded_main:
  "a = ''add'' \<or> a = ''delete'' \<Longrightarrow>
   ValidationFailCount (cycle_main cfg kapi d_add d_del rando w) a +
     length (ValidationDuration (cycle_main cfg kapi d_add d_del rando w) a) =
   Suc (ValidationFailCount w a + length (ValidationDuration w a))"
  by (auto simp: cycle_main_def ValidationFailCount_record_validation
        ValidationFailCount_phase_main ValidationDuration_record_validation
        ValidationDuration_phase_main)

lemma validations_recorded_part_001:
  "a = ''add'' \<or> a = ''delete'' \<Longrightarrow>
   ValidationFailCount (cycle_part_001 cfg kapi d_add d_del rando w) a +
     length (ValidationDuration (cycle_part_001 cfg kapi d_add d_del rando w) a) =
   Suc (ValidationFailCount w a + length (ValidationDuration w a))"
  by (auto simp: cycle_part_001_def ValidationFailCount_record_validation
        ValidationFailCount_phase_part_001 ValidationDuration_record_validation
        ValidationDuration_phase_part_001)

text \<open>
  C7 (as amended).  What a cycle logs for failed API calls: the failure of the service
  creation (both versions) and of the pod creation (\<^verbatim>\<open>part_001\<close>) is logged with
  \<^verbatim>\<open>log.Printf\<close>, whatever the verbose flag says; the failure of the endpoints
  creation (\<^verbatim>\<open>main.go\<close>) and of every deletion goes through \<^verbatim>\<open>debugf\<close> and is
  logged only when the flag is set; a call that succeeds logs nothing.  Whatever the API
  returns, the cycle makes the same calls as when every call succeeds, each once (three
  in \<^verbatim>\<open>main.go\<close>, four in \<^verbatim>\<open>part_001\<close>: no call is repeated and none is left
  out), and both validations are recorded.
\<close>

theorem api_failure_logging:
  "new_log w (cycle_main cfg kapi d_add d_del rando w) =
     (case kapi (Services_Create (namespace cfg) (svc_main rando (namespace cfg))) of
        None \<Rightarrow> []
      | Some e \<Rightarrow> [(''could not create service %v.%v: %v'',
                     [Str rando, Str (namespace cfg), Str e])]) @
     (case kapi (Endpoints_Create (namespace cfg)
                   (eps_main rando (namespace cfg) ''1.2.3.4'')) of
        None \<Rightarrow> []
      | Some e \<Rightarrow> if verbose cfg
                  then [(''could not create endpoints %v.%v: %v'',
                         [Str rando, Str (namespace cfg), Str e])]
                  else []) @
     (case kapi (Services_Delete (namespace cfg) rando) of
        None \<Rightarrow> []
      | Some e \<Rightarrow> if verbose cfg
                  then [(''could not delete service %v.%v: %v'',
                         [Str rando, Str (namespace cfg), Str e])]
                  else []) \<and>
   new_log w (cycle_part_001 cfg' kapi d_add d_del rando w) =
     (case kapi (Pods_Create (namespace cfg') (pod_part_001 rando (namespace cfg'))) of
        None \<Rightarrow> []
      | Some e \<Rightarrow> [(''could not create pod %v.%v: %v'',
                     [Str rando, Str (namespace cfg'), Str e])]) @
     (case kapi (Services_Create (namespace cfg') (svc_part_001 rando (namespace cfg'))) of
        None \<Rightarrow> []
      | Some e \<Rightarrow> [(''could not create service %v.%v: %v'',
                     [Str rando, Str (namespace cfg'), Str e])]) @
     (case kapi (Pods_Delete (namespace cfg') rando) of
        None \<Rightarrow> []
      | Some e \<Rightarrow> if verbose cfg'
                  then [(''could not delete pod pod.%v.%v: %v'',
                         [Str rando, Str (namespace cfg'), Str e])]
                  else []) @
     (case kapi (Services_Delete (namespace cfg') rando) of
        None \<Rightarrow> []
      | Some e \<Rightarrow> if verbose cfg'
                  then [(''could not delete service %v.%v: %v'',
                         [Str rando, Str (namespace cfg'), Str e])]
                  else []) \<and>
   new_calls w (cycle_main cfg kapi d_add d_del rando w) =
     new_calls w (cycle_main cfg working_api d_add d_del rando w) \<and>
   length (new_calls w (cycle_main cfg kapi d_add d_del rando w)) = 3 \<and>
   distinct (new_calls w (cycle_main cfg kapi d_add d_del rando w)) \<and>
   new_calls w (cycle_part_001 cfg' kapi d_add d_del rando w) =
     new_calls w (cycle_part_001 cfg' working_api d_add d_del rando w) \<and>
   length (new_calls w (cycle_part_001 cfg' kapi d_add d_del rando w)) = 4 \<and>
   distinct (new_calls w (cycle_part_001 cfg' kapi d_add d_del rando w)) \<and>
   (\<forall>a. a = ''add'' \<or> a = ''delete'' \<longrightarrow>
      ValidationFailCount (cycle_main cfg kapi d_add d_del rando w) a +
        length (ValidationDuration (cycle_main cfg kapi d_add d_del rando w) a) =
      Suc (ValidationFailCount w a + length (ValidationDuration w a)) \<and>
      ValidationFailCount (cycle_part_001 cfg' kapi d_add d_del rando w) a +
        length (ValidationDuration (cycle_part_001 cfg' kapi d_add d_del rando w) a) =
      Suc (ValidationFailCount w a + length (ValidationDuration w a)))"
proof -
  have V: "\<forall>a. a = ''add'' \<or> a = ''delete'' \<longrightarrow>
      ValidationFailCount (cycle_main cfg kapi d_add d_del rando w) a +
        length (ValidationDuration (cycle_main cfg kapi d_add d_del rando w) a) =
      Suc (ValidationFailCount w a + length (ValidationDuration w a)) \<and>
      ValidationFailCount (cycle_part_001 cfg' kapi d_add d_del rando w) a +
        length (ValidationDuration (cycle_part_001 cfg' kapi d_add d_del rando w) a) =
      Suc (ValidationFailCount w a + length (ValidationDuration w a))"
    using validations_recorded_main [of _ cfg kapi d_add d_del rando w]
      validations_recorded_part_001 [of _ cfg' kapi d_add d_del rando w]
    by blast
  have C: "new_calls w (cycle_main cfg kapi d_add d_del rando w) =
     new_calls w (cycle_main cfg working_api d_add d_del rando w) \<and>
   length (new_calls w (cycle_main cfg kapi d_add d_del rando w)) = 3 \<and>
   distinct (new_calls w (cycle_main cfg kapi d_add d_del rando w)) \<and>
   new_calls w (cycle_part_001 cfg' kapi d_add d_del rando w) =
     new_calls w (cycle_part_001 cfg' working_api d_add d_del rando w) \<and>
   length (new_calls w (cycle_part_001 cfg' kapi d_add d_del rando w)) = 4 \<and>
   distinct (new_calls w (cycle_part_001 cfg' kapi d_add d_del rando w))"
    by (simp add: new_calls_cycle_main new_calls_cycle_part_001)
  show ?thesis
    using new_log_cycle_main [of w cfg kapi d_add d_del rando]
      new_log_cycle_part_001 [of w cfg' kapi d_add d_del rando] C V
    by (intro conjI) blast+
qed


text \<open>
  The claim as stated fails: with the verbose flag off, a failed service creation still
  writes a log line.
\<close>

theorem api_failure_logging_counterexample:
  "\<not> verbose default_config_main \<and>
   failing_api (Services_Create ''load-test'' (svc_main ''kubernoisy-0'' ''load-test'')) \<noteq> None \<and>
   log_output
     (cycle_main default_config_main failing_api
        (stub_dns 0 [] ([''1.2.3.4''], None) 0)
        (stub_dns 0 [] ([], Some ''lookup kubernoisy-0: no such host'') 0)
        ''kubernoisy-0'' initial_world) =
     [(''could not create service %v.%v: %v'',
       [Str ''kubernoisy-0'', Str ''load-test'',
        Str ''the server is currently unable to handle the request''])]"
proof -
  have "new_log initial_world
     (cycle_main default_config_main failing_api
        (stub_dns 0 [] ([''1.2.3.4''], None) 0)
        (stub_dns 0 [] ([], Some ''lookup kubernoisy-0: no such host'') 0)
        ''kubernoisy-0'' initial_world) =
     [(''could not create service %v.%v: %v'',
       [Str ''kubernoisy-0'', Str ''load-test'',
        Str ''the server is currently unable to handle the request''])]"
    by (simp add: new_log_cycle_main failing_api_def default_config_main_def)
  then show ?thesis
    by (simp add: new_log_def initial_world_def failing_api_def default_config_main_def)
qed

theorem api_failure_logging_witness:
  "new_log initial_world
     (cycle_main (default_config_main\<lparr>verbose := True\<rparr>) failing_api
        (stub_dns 0 [] ([''1.2.3.4''], None) 0)
        (stub_dns 0 [] ([], Some ''lookup kubernoisy-0: no such host'') 0)
        ''kubernoisy-0'' initial_world) =
     [(''could not create service %v.%v: %v'',
       [Str ''kubernoisy-0'', Str ''load-test'',
        Str ''the server is currently unable to handle the request'']),
      (''could not create endpoints %v.%v: %v'',
       [Str ''kubernoisy-0'', Str ''load-test'',
        Str ''the server is currently unable to handle the request'']),
      (''could not delete service %v.%v: %v'',
       [Str ''kubernoisy-0'', Str ''load-test'',
        Str ''the server is currently unable to handle the request''])] \<and>
   new_log initial_world
     (cycle_part_001 default_config_part_001 failing_api
        (stub_dns 0 [] ([''1.2.3.4''], None) 0)
        (stub_dns 0 [] ([], Some ''lookup kubernoisy-0: no such host'') 0)
        ''kubernoisy-0'' initial_world) =
     [(''could not create pod %v.%v: %v'',
       [Str ''kubernoisy-0'', Str ''load-test'',
        Str ''the server is currently unable to handle the request'']),
      (''could not create service %v.%v: %v'',
       [Str ''kubernoisy-0'', Str ''load-test'',
        Str ''the server is currently unable to handle the request''])] \<and>
   ValidationFailCount
     (cycle_main (default_config_main\<lparr>verbose := True\<rparr>) failing_api
        (stub_dns 0 [] ([''1.2.3.4''], None) 0)
        (stub_dns 0 [] ([], Some ''lookup kubernoisy-0: no such host'') 0)
        ''kubernoisy-0'' initial_world) ''add'' +
   length (ValidationDuration
     (cycle_main (default_config_main\<lparr>verbose := True\<rparr>) failing_api
        (stub_dns 0 [] ([''1.2.3.4''], None) 0)
        (stub_dns 0 [] ([], Some ''lookup kubernoisy-0: no such host'') 0)
        ''kubernoisy-0'' initial_world) ''add'') = 1"
  using api_failure_logging [where cfg = "default_config_main\<lparr>verbose := True\<rparr>"
      and cfg' = default_config_part_001 and kapi = failing_api
      and d_add = "stub_dns 0 [] ([''1.2.3.4''], None) 0"
      and d_del = "stub_dns 0 [] ([], Some ''lookup kubernoisy-0: no such host'') 0"
      and rando = "''kubernoisy-0''" and w = initial_world]
  by (simp add: failing_api_def default_config_main_def default_config_part_001_def
        initial_world_def)

subsection \<open>Resource factory\<close>

text \<open>
  C8.  The objects a cycle hands to the create calls are built from the identity and
  the namespace alone: two cycles with the same identity and the same namespace create
  the same pair of objects, whatever the rest of the configuration, the answers of the
  API, the resolver and the state of the process are.  The pair is given by the total
  functions \<open>svc_main\<close> and \<open>eps_main\<close> (\<open>pod_part_001\<close> and \<open>svc_part_001\<close>), and both
  objects carry the identity as their name and the namespace as their namespace.
\<close>

theorem resource_specs_deterministic:
  "(namespace cfg = namespace cfg' \<longrightarrow>
      take 2 (new_calls w (cycle_main cfg kapi d_add d_del rando w)) =
      take 2 (new_calls w' (cycle_main cfg' kapi' d_add' d_del' rando w')) \<and>
      take 2 (new_calls w (cycle_part_001 cfg kapi d_add d_del rando w)) =
      take 2 (new_calls w' (cycle_part_001 cfg' kapi' d_add' d_del' rando w'))) \<and>
   take 2 (new_calls w (cycle_main cfg kapi d_add d_del rando w)) =
     [Services_Create (namespace cfg) (svc_main rando (namespace cfg)),
      Endpoints_Create (namespace cfg) (eps_main rando (namespace cfg) ''1.2.3.4'')] \<and>
   take 2 (new_calls w (cycle_part_001 cfg kapi d_add d_del rando w)) =
     [Pods_Create (namespace cfg) (pod_part_001 rando (namespace cfg)),
      Services_Create (namespace cfg) (svc_part_001 rando (namespace cfg))] \<and>
   Name (svc_ObjectMeta (svc_main rando ns)) = rando \<and>
   Namespace (svc_ObjectMeta (svc_main rando ns)) = ns \<and>
   Name (eps_ObjectMeta (eps_main rando ns ip)) = rando \<and>
   Namespace (eps_ObjectMeta (eps_main rando ns ip)) = ns \<and>
   Name (pod_ObjectMeta (pod_part_001 rando ns)) = rando \<and>
   Namespace (pod_ObjectMeta (pod_part_001 rando ns)) = ns \<and>
   Name (svc_ObjectMeta (svc_part_001 rando ns)) = rando \<and>
   Namespace (svc_ObjectMeta (svc_part_001 rando ns)) = ns"
  by (simp add: new_calls_cycle_main new_calls_cycle_part_001 svc_main_def eps_main_def
        pod_part_001_def svc_part_001_def)

theorem resource_specs_deterministic_witness:
  "namespace default_config_main = namespace (default_config_part_001\<lparr>verbose := True\<rparr>) \<and>
   take 2 (new_calls initial_world
     (cycle_main default_config_main working_api
        (stub_dns 0 [] ([''1.2.3.4''], None) 0)
        (stub_dns 0 [] ([], Some ''lookup kubernoisy-0: no such host'') 0)
        ''kubernoisy-0'' initial_world)) =
   take 2 (new_calls (initial_world\<lparr>log_output := [(''Performing %v operations per second'', [IntArg 1])]\<rparr>)
     (cycle_main (default_config_part_001\<lparr>verbose := True\<rparr>) failing_api
        (stub_dns 3 ''server misbehaving'' ([''1.2.3.4''], None) 5)
        (stub_dns 1 ''server misbehaving'' ([], Some ''lookup kubernoisy-0: no such host'') 7)
        ''kubernoisy-0''
        (initial_world\<lparr>log_output := [(''Performing %v operations per second'', [IntArg 1])]\<rparr>)))"
  using resource_specs_deterministic [where cfg = default_config_main
      and cfg' = "default_config_part_001\<lparr>verbose := True\<rparr>"
      and kapi = working_api and kapi' = failing_api
      and d_add = "stub_dns 0 [] ([''1.2.3.4''], None) 0"
      and d_del = "stub_dns 0 [] ([], Some ''lookup kubernoisy-0: no such host'') 0"
      and d_add' = "stub_dns 3 ''server misbehaving'' ([''1.2.3.4''], None) 5"
      and d_del' = "stub_dns 1 ''server misbehaving'' ([], Some ''lookup kubernoisy-0: no such host'') 7"
      and rando = "''kubernoisy-0''" and w = initial_world
      and w' = "initial_world\<lparr>log_output := [(''Performing %v operations per second'', [IntArg 1])]\<rparr>"]
  by (simp add: default_config_main_def default_config_part_001_def)

subsection \<open>Startup and the rate scheduler\<close>

text \<open>
  The loop starts one cycle for each tick that arrives before the first signal, and
  nothing else.  In \<^verbatim>\<open>main.go\<close> the period is the second divided by \<^verbatim>\<open>ops\<close>,
  rounded down to a nanosecond; in \<^verbatim>\<open>part_001\<close> it is a whole number of seconds.
\<close>

lemma main_loop_no_server: "Go_ListenAndServe a \<notin> set (main_loop evs)"
  by (induction evs rule: main_loop.induct) simp_all

lemma main_loop_spawns:
  "length (filter (\<lambda>a. a = Go_cycle) (main_loop evs)) =
   length (filter (\<lambda>e. e = Tick) (takeWhile (\<lambda>e. e \<noteq> Signal) evs))"
  by (induction evs rule: main_loop.induct) simp_all

lemma main_loop_ticks_only:
  "Signal \<notin> set evs \<Longrightarrow> main_loop evs = map (\<lambda>e. Go_cycle) evs"
  by (induction evs rule: main_loop.induct) simp_all

lemma ticker_period_main_bounds:
  assumes "0 < n"
  shows "\<exists>d. ticker_period_main n = Some d \<and> d = Second div n \<and>
           d * n \<le> Second \<and> Second < (d + 1) * n"
proof -
  have "ticker_period_main n = Some (Second div n)"
    using assms by (simp add: ticker_period_main_def go_quo_def Second_def)
  moreover have "Second div n * n \<le> Second"
    using assms by (metis div_mult_mod_eq le_add_same_cancel1 pos_mod_sign)
  moreover have "Second < (Second div n + 1) * n"
  proof -
    have a: "Second div n * n + Second mod n = Second" by simp
    have b: "Second mod n < n" using assms by simp
    have c: "(Second div n + 1) * n = Second div n * n + n" by (simp add: algebra_simps)
    from a b c show ?thesis by linarith
  qed
  ultimately show ?thesis by blast
qed

lemma float64_div_half: "float64_div 1 2 = Some (1 / 2)"
proof -
  have e: "float64_exponent (1 / 2) = - 1"
    by (simp add: float64_exponent_def exponent_down.simps [of 1022]
          exponent_down.simps [of 1021])
  show ?thesis
    by (simp add: float64_div_def float64_round_def e pow2_def round_half_even_def)
qed

lemma ticker_period_part_001_two: "ticker_period_part_001 2 = 0"
proof -
  have f: "\<lfloor>1 / 2 :: rat\<rfloor> = 0"
    by (simp add: floor_eq_iff)
  have "float_to_int (Some (1 / 2)) = 0"
    by (simp add: float_to_int_def f)
  then show ?thesis
    by (simp add: ticker_period_part_001_def float64_div_half wrap64_def)
qed

text \<open>
  The period of \<^verbatim>\<open>part_001\<close> at other rates: one second at \<^verbatim>\<open>-ops 1\<close>; ten
  seconds at \<^verbatim>\<open>-ops 0.1\<close>, the \<^verbatim>\<open>float64\<close> nearest to a tenth, whose quotient
  rounds to 10; and 0 at \<^verbatim>\<open>-ops 1e-19\<close>, where the quotient is beyond the 64-bit
  range.
\<close>

lemma ticker_period_part_001_one: "ticker_period_part_001 1 = Second"
proof -
  have e: "float64_exponent 1 = 0"
    by (simp add: float64_exponent_def exponent_up.simps)
  have "float64_div 1 1 = Some 1"
    by (simp add: float64_div_def float64_round_def e pow2_def round_half_even_def)
  then show ?thesis
    by (simp add: ticker_period_part_001_def float_to_int_def wrap64_def Second_def)
qed

lemma ticker_period_part_001_tenth:
  "ticker_period_part_001 (3602879701896397 / 36028797018963968) = 10 * Second"
proof -
  have e: "float64_exponent (36028797018963968 / 3602879701896397) = 3"
    by (simp add: float64_exponent_def exponent_up.simps)
  have f: "\<lfloor>20282409603651670423947251286016 / 3602879701896397 :: rat\<rfloor> =
      5629499534213119"
    by (simp add: floor_eq_iff)
  have r: "round_half_even (20282409603651670423947251286016 / 3602879701896397) =
      5629499534213120"
    by (simp add: round_half_even_def f)
  have "float64_div 1 (3602879701896397 / 36028797018963968) = Some 10"
    by (simp add: float64_div_def float64_round_def e pow2_def r)
  then show ?thesis
    by (simp add: ticker_period_part_001_def float_to_int_def wrap64_def Second_def)
qed

lemma ticker_period_part_001_tiny:
  "ticker_period_part_001 (2076918743413931 / 20769187434139310514121985316880384) = 0"
proof -
  have e: "float64_exponent (20769187434139310514121985316880384 / 2076918743413931) = 63"
    by (simp add: float64_exponent_def exponent_up.simps)
  have f: "\<lfloor>10141204801825835211973625643008 / 2076918743413931 :: rat\<rfloor> =
      4882812500000000"
    by (simp add: floor_eq_iff)
  have r: "round_half_even (10141204801825835211973625643008 / 2076918743413931) =
      4882812500000000"
    by (simp add: round_half_even_def f)
  have "float64_div 1 (2076918743413931 / 20769187434139310514121985316880384) =
      Some 10000000000000000000"
    by (simp add: float64_div_def float64_round_def e pow2_def r)
  then show ?thesis
    by (simp add: ticker_period_part_001_def float_to_int_def wrap64_def Second_def)
qed

text \<open>
  C4.  When \<^verbatim>\<open>ops <= 0\<close>, \<^verbatim>\<open>main\<close> does one thing: \<^verbatim>\<open>log.Fatal\<close>.  No cycle is
  started and \<^verbatim>\<open>http.ListenAndServe\<close> is not called.  When \<^verbatim>\<open>ops > 0\<close> the check
  passes: \<^verbatim>\<open>main\<close> goes on to listen for signals and to connect to the API, and, when
  the connection succeeds, to serve the metrics.  This holds for the integer \<^verbatim>\<open>ops\<close>
  of \<^verbatim>\<open>main.go\<close> and for the \<^verbatim>\<open>float64\<close> of \<^verbatim>\<open>part_001\<close>.
\<close>

theorem ops_check:
  "(ops cfg \<le> 0 \<longrightarrow>
      main_main cfg conn evs = [Log_Fatal [Str ''ops cannot be <= 0'']] \<and>
      Go_cycle \<notin> set (main_main cfg conn evs) \<and>
      (\<forall>a. Go_ListenAndServe a \<notin> set (main_main cfg conn evs))) \<and>
   (0 < ops cfg \<longrightarrow>
      take 2 (main_main cfg conn evs) = [Signal_Notify, GetAPIConn] \<and>
      (conn = None \<longrightarrow>
         take 4 (main_main cfg conn evs) =
           [Signal_Notify, GetAPIConn, Http_Handle ''/metrics'',
            Go_ListenAndServe (promaddr cfg)])) \<and>
   (ops cfg' \<le> 0 \<longrightarrow>
      main_part_001 cfg' conn evs = [Log_Fatal [Str ''ops cannot be <= 0'']] \<and>
      Go_cycle \<notin> set (main_part_001 cfg' conn evs) \<and>
      (\<forall>a. Go_ListenAndServe a \<notin> set (main_part_001 cfg' conn evs))) \<and>
   (0 < ops cfg' \<longrightarrow>
      take 2 (main_part_001 cfg' conn evs) = [Signal_Notify, GetAPIConn] \<and>
      (conn = None \<longrightarrow>
         take 4 (main_part_001 cfg' conn evs) =
           [Signal_Notify, GetAPIConn, Http_Handle ''/metrics'',
            Go_ListenAndServe (promaddr cfg')]))"
  by (simp add: main_main_def main_part_001_def)

theorem ops_check_witness:
  "ops (default_config_main\<lparr>ops := 0\<rparr>) \<le> 0 \<and>
   main_main (default_config_main\<lparr>ops := 0\<rparr>) None [Tick, Tick] =
     [Log_Fatal [Str ''ops cannot be <= 0'']] \<and>
   0 < ops default_config_main \<and>
   take 4 (main_main default_config_main None [Tick, Tick]) =
     [Signal_Notify, GetAPIConn, Http_Handle ''/metrics'', Go_ListenAndServe '':9696''] \<and>
   ops (default_config_part_001\<lparr>ops := - 1 / 2\<rparr>) \<le> 0 \<and>
   main_part_001 (default_config_part_001\<lparr>ops := - 1 / 2\<rparr>) None [Tick, Tick] =
     [Log_Fatal [Str ''ops cannot be <= 0'']] \<and>
   0 < ops default_config_part_001 \<and>
   take 4 (main_part_001 default_config_part_001 None [Tick, Tick]) =
     [Signal_Notify, GetAPIConn, Http_Handle ''/metrics'', Go_ListenAndServe '':9696'']"
  using ops_check [of "default_config_main\<lparr>ops := 0\<rparr>" None "[Tick, Tick]"
      "default_config_part_001\<lparr>ops := - 1 / 2\<rparr>"]
    ops_check [of default_config_main None "[Tick, Tick]" default_config_part_001]
  by (simp add: default_config_main_def default_config_part_001_def)

text \<open>
  C1.  The claim fails in \<^verbatim>\<open>src/unnamed/part_001\<close>.  There the period is
  \<^verbatim>\<open>time.Duration(1/ops) * time.Second\<close>: the quotient is cut to a whole number of
  nanoseconds before it is multiplied by a second.  With \<^verbatim>\<open>-ops 2\<close> the period is
  0, not half a second; \<^verbatim>\<open>time.NewTicker\<close> panics, and no cycle is ever started.
  \<^verbatim>\<open>src/main.go\<close> divides the second by \<^verbatim>\<open>ops\<close> and gets the half second, and
  starts one cycle for each tick.
\<close>

theorem ticker_period_part_001_truncated:
  "ticker_period_part_001 2 = 0 \<and>
   main_part_001 (default_config_part_001\<lparr>ops := 2\<rparr>) None evs =
     [Signal_Notify, GetAPIConn, Http_Handle ''/metrics'', Go_ListenAndServe '':9696'',
      Panic ''non-positive interval for NewTicker''] \<and>
   Go_cycle \<notin> set (main_part_001 (default_config_part_001\<lparr>ops := 2\<rparr>) None evs) \<and>
   ticker_period_main 2 = Some 500000000 \<and>
   main_main (default_config_main\<lparr>ops := 2\<rparr>) None [Tick, Tick, Tick] =
     [Signal_Notify, GetAPIConn, Http_Handle ''/metrics'', Go_ListenAndServe '':9696'',
      NewTicker 500000000, Log_Printf ''Performing %v operations per second'' [IntArg 2],
      Go_cycle, Go_cycle, Go_cycle]"
proof -
  have Z: "ticker_period_part_001 2 = 0"
    by (rule ticker_period_part_001_two)
  have M: "ticker_period_main 2 = Some 500000000"
    by (simp add: ticker_period_main_def go_quo_def Second_def)
  show ?thesis
    by (simp add: Z M main_part_001_def main_main_def start_ticker_def
          default_config_part_001_def default_config_main_def)
qed

end
